theory Spec2Isabelle
  imports Main "HOL-Library.AList" "HOL-Library.FSet"
begin

section \<open>Python values, exceptions and indexing\<close>

text \<open>
  The store and the metadata pipeline of pickaxe_generic are embedded method by method.
  A method that mutates \<open>self\<close> takes the store and returns the store it leaves behind,
  paired with what the call returned or raised: an exception leaves the mutations made
  before it in place, so the store is returned on both paths.

  Attributes written \<open>self._name\<close> in the source are the record fields \<open>p_name\<close>
  (an Isabelle name cannot start with an underscore).

  The embedding is of the bodies of the methods, on objects that have every attribute
  the bodies read and write. Whether Python builds such an object from the class
  statements is outside it: \<open>ChemNetworkBin.__slots__\<close> lists nine of the attributes
  that \<open>__init__\<close> assigns and leaves out the metadata lists, the reverse maps and the
  compatibility table; \<open>RxnAnalysisStepProp\<close> is a frozen dataclass whose \<open>__init__\<close>
  assigns an attribute; and the calculator classes put \<open>abstractmethod\<close> over
  \<open>property\<close>.
\<close>

datatype py_error = KeyError | IndexError | ValueError | TypeError | NameError

text \<open>A Python value that may be \<open>None\<close>.\<close>

datatype 'v pyval = PyNone | PyVal 'v

text \<open>
  \<open>xs[i]\<close> on a Python list: a negative index counts from the end, an index outside
  \<open>-len(xs) .. len(xs) - 1\<close> raises IndexError (here: no position).
\<close>

definition py_index :: "'a list \<Rightarrow> int \<Rightarrow> nat option" where
  "py_index xs i =
     (let n = int (length xs); j = (if i < 0 then i + n else i)
      in if 0 \<le> j \<and> j < n then Some (nat j) else None)"

section \<open>network.py: the entity store\<close>

subsection \<open>Data\<close>

text \<open>
  \<open>DataUnit\<close>, \<open>MolDatBase\<close> and \<open>OpDatBase\<close> are declared outside the three modules at
  hand; the store uses a unit's \<open>uid\<close>, and of an operator its \<open>len\<close> (the number of
  argument slots) and its \<open>compat(mol, argnum)\<close> predicate.
\<close>

record 'u DataUnit =
  uid :: 'u
  blob :: string

type_synonym 'u MolDatBase = "'u DataUnit"

record 'u OpDatBase = "'u DataUnit" +
  op_len :: nat
  compat :: "'u MolDatBase \<Rightarrow> nat \<Rightarrow> bool"

record Reaction =
  operator :: int
  reactants :: "int list"
  products :: "int list"

type_synonym ('k, 'v) metadict = "'k \<rightharpoonup> 'v pyval"

record ('u, 'k, 'v) ChemNetworkBin =
  p_mol_list :: "'u MolDatBase list"
  p_op_list :: "'u OpDatBase list"
  p_rxn_list :: "Reaction list"
  p_mol_map :: "'u \<rightharpoonup> nat"
  p_op_map :: "'u \<rightharpoonup> nat"
  p_rxn_map :: "Reaction \<rightharpoonup> nat"
  p_mol_meta :: "('k, 'v) metadict list"
  p_op_meta :: "('k, 'v) metadict list"
  p_rxn_meta :: "('k, 'v) metadict list"
  p_mol_producers :: "int \<rightharpoonup> nat set"
  p_mol_consumers :: "int \<rightharpoonup> nat set"
  p_compat_table :: "nat list list list"

text \<open>\<open>ChemNetworkBin.__init__\<close>: every registry, map and table starts empty.\<close>

definition init :: "('u, 'k, 'v) ChemNetworkBin" where
  "init = \<lparr>p_mol_list = [], p_op_list = [], p_rxn_list = [],
           p_mol_map = Map.empty, p_op_map = Map.empty, p_rxn_map = Map.empty,
           p_mol_meta = [], p_op_meta = [], p_rxn_meta = [],
           p_mol_producers = Map.empty, p_mol_consumers = Map.empty,
           p_compat_table = []\<rparr>"

subsection \<open>Metadata access\<close>

text \<open>
  \<open>mol_meta\<close>, \<open>op_meta\<close> and \<open>rxn_meta\<close> have the same body on three different
  attributes:
  \<^verbatim>\<open>
    if value is None:
        return self._mol_meta[index][key]
    self._mol_meta[index][key] = value
  \<close>
  \<open>meta_access\<close> is that body on the attribute's list of dictionaries; it returns the
  call's result and the list afterwards. A write returns \<open>None\<close>.
\<close>

definition meta_access ::
  "('k, 'v) metadict list \<Rightarrow> int \<Rightarrow> 'k \<Rightarrow> 'v pyval
     \<Rightarrow> (py_error + 'v pyval) \<times> ('k, 'v) metadict list" where
  "meta_access tab index key val =
     (if val = PyNone then
        (case py_index tab index of
           None \<Rightarrow> (Inl IndexError, tab)
         | Some j \<Rightarrow>
             (case (tab ! j) key of
                None \<Rightarrow> (Inl KeyError, tab)
              | Some x \<Rightarrow> (Inr x, tab)))
      else
        (case py_index tab index of
           None \<Rightarrow> (Inl IndexError, tab)
         | Some j \<Rightarrow> (Inr PyNone, tab[j := (tab ! j)(key \<mapsto> val)])))"

definition mol_meta ::
  "('u, 'k, 'v) ChemNetworkBin \<Rightarrow> int \<Rightarrow> 'k \<Rightarrow> 'v pyval
     \<Rightarrow> (py_error + 'v pyval) \<times> ('u, 'k, 'v) ChemNetworkBin" where
  "mol_meta self index key val =
     (let (r, tab) = meta_access (p_mol_meta self) index key val
      in (r, self\<lparr>p_mol_meta := tab\<rparr>))"

definition op_meta ::
  "('u, 'k, 'v) ChemNetworkBin \<Rightarrow> int \<Rightarrow> 'k \<Rightarrow> 'v pyval
     \<Rightarrow> (py_error + 'v pyval) \<times> ('u, 'k, 'v) ChemNetworkBin" where
  "op_meta self index key val =
     (let (r, tab) = meta_access (p_op_meta self) index key val
      in (r, self\<lparr>p_op_meta := tab\<rparr>))"

definition rxn_meta ::
  "('u, 'k, 'v) ChemNetworkBin \<Rightarrow> int \<Rightarrow> 'k \<Rightarrow> 'v pyval
     \<Rightarrow> (py_error + 'v pyval) \<times> ('u, 'k, 'v) ChemNetworkBin" where
  "rxn_meta self index key val =
     (let (r, tab) = meta_access (p_rxn_meta self) index key val
      in (r, self\<lparr>p_rxn_meta := tab\<rparr>))"

subsection \<open>Compatibility table and reverse index: reads\<close>

definition compat_table ::
  "('u, 'k, 'v) ChemNetworkBin \<Rightarrow> int \<Rightarrow> py_error + nat list list" where
  "compat_table self index =
     (case py_index (p_compat_table self) index of
        None \<Rightarrow> Inl IndexError
      | Some j \<Rightarrow> Inr (p_compat_table self ! j))"

text \<open>
  \<open>consumers\<close> and \<open>producers\<close> accept an index, a molecule or an identifier:
  \<^verbatim>\<open>
    if isinstance(mol, int):
        return self._mol_consumers[_MolIndex(mol)]
    elif isinstance(mol, MolDatBase):
        return self._mol_consumers[self._mol_map[mol.uid]]
    return self._mol_consumers[self._mol_map[mol]]
  \<close>
  The test for \<open>int\<close> comes first, so an identifier that is a Python \<open>int\<close> is read as
  an index and not looked up in \<open>_mol_map\<close>. Which identifiers are Python ints, and
  which integer each is, is the parameter \<open>as_int\<close>. A key missing from a dictionary
  raises KeyError.
\<close>

datatype 'u mol_ref = ByIndex int | ByMol "'u MolDatBase" | ByUid 'u

definition consumers ::
  "('u \<Rightarrow> int option) \<Rightarrow> ('u, 'k, 'v) ChemNetworkBin \<Rightarrow> 'u mol_ref
     \<Rightarrow> py_error + nat set" where
  "consumers as_int self mol =
     (case mol of
        ByIndex m \<Rightarrow>
          (case p_mol_consumers self m of None \<Rightarrow> Inl KeyError | Some c \<Rightarrow> Inr c)
      | ByMol d \<Rightarrow>
          (case p_mol_map self (uid d) of
             None \<Rightarrow> Inl KeyError
           | Some m \<Rightarrow>
               (case p_mol_consumers self (int m) of
                  None \<Rightarrow> Inl KeyError | Some c \<Rightarrow> Inr c))
      | ByUid u \<Rightarrow>
          (case as_int u of
             Some m \<Rightarrow>
               (case p_mol_consumers self m of None \<Rightarrow> Inl KeyError | Some c \<Rightarrow> Inr c)
           | None \<Rightarrow>
               (case p_mol_map self u of
                  None \<Rightarrow> Inl KeyError
                | Some m \<Rightarrow>
                    (case p_mol_consumers self (int m) of
                       None \<Rightarrow> Inl KeyError | Some c \<Rightarrow> Inr c))))"

definition producers ::
  "('u \<Rightarrow> int option) \<Rightarrow> ('u, 'k, 'v) ChemNetworkBin \<Rightarrow> 'u mol_ref
     \<Rightarrow> py_error + nat set" where
  "producers as_int self mol =
     (case mol of
        ByIndex m \<Rightarrow>
          (case p_mol_producers self m of None \<Rightarrow> Inl KeyError | Some c \<Rightarrow> Inr c)
      | ByMol d \<Rightarrow>
          (case p_mol_map self (uid d) of
             None \<Rightarrow> Inl KeyError
           | Some m \<Rightarrow>
               (case p_mol_producers self (int m) of
                  None \<Rightarrow> Inl KeyError | Some c \<Rightarrow> Inr c))
      | ByUid u \<Rightarrow>
          (case as_int u of
             Some m \<Rightarrow>
               (case p_mol_producers self m of None \<Rightarrow> Inl KeyError | Some c \<Rightarrow> Inr c)
           | None \<Rightarrow>
               (case p_mol_map self u of
                  None \<Rightarrow> Inl KeyError
                | Some m \<Rightarrow>
                    (case p_mol_producers self (int m) of
                       None \<Rightarrow> Inl KeyError | Some c \<Rightarrow> Inr c))))"

subsection \<open>The query view of the operators\<close>

text \<open>
  \<open>add_mol\<close> reads the operators through the property \<open>self.ops\<close>:
  \<^verbatim>\<open>
    @property
    def ops(self):
        if self._op_query is None:
            self._op_query = __ValueQueryData(self._op_list, self._op_map)
        return self._op_query
  \<close>
  \<open>__init__\<close> sets \<open>_op_query\<close> to \<open>None\<close> and this assignment is the only other one to
  it. The class \<open>__ValueQueryData\<close> is defined at module level under that name; inside
  the body of \<open>class ChemNetworkBin\<close> Python reads a name with two leading underscores
  as \<open>_ChemNetworkBin__ValueQueryData\<close>, which nothing defines. The right-hand side
  raises NameError before anything is assigned, so \<open>_op_query\<close> stays \<open>None\<close> and every
  read of \<open>self.ops\<close> raises NameError. (\<open>self.mols\<close> and \<open>self.rxns\<close> are written the
  same way; no method of the store reads them.)
\<close>

definition ops :: "('u, 'k, 'v) ChemNetworkBin \<Rightarrow> py_error + 'u OpDatBase list" where
  "ops self = Inl NameError"

subsection \<open>add_mol\<close>

text \<open>
  The two loops that close \<open>add_mol\<close>:
  \<^verbatim>\<open>
    for i, op in enumerate(self.ops):
        for argnum in range(len(op)):
            if op.compat(mol, argnum):
                self._compat_table[i][argnum].append(mol_index)
  \<close>
  A row or a slot missing from the table raises IndexError and leaves the appends made
  so far in the table. The loops stand behind the read of \<open>self.ops\<close>: when that read
  raises, the molecule is already in the registry, the identity map and the metadata
  list, and the table is as it was.
\<close>

fun add_mol_argnums ::
  "'u OpDatBase \<Rightarrow> 'u MolDatBase \<Rightarrow> nat \<Rightarrow> nat \<Rightarrow> nat list \<Rightarrow> nat list list list
     \<Rightarrow> py_error option \<times> nat list list list" where
  "add_mol_argnums op mol mol_index i [] tbl = (None, tbl)"
| "add_mol_argnums op mol mol_index i (argnum # rest) tbl =
     (if compat op mol argnum then
        (if i < length tbl \<and> argnum < length (tbl ! i) then
           add_mol_argnums op mol mol_index i rest
             (tbl[i := (tbl ! i)[argnum := tbl ! i ! argnum @ [mol_index]]])
         else (Some IndexError, tbl))
      else add_mol_argnums op mol mol_index i rest tbl)"

fun add_mol_ops ::
  "'u MolDatBase \<Rightarrow> nat \<Rightarrow> (nat \<times> 'u OpDatBase) list \<Rightarrow> nat list list list
     \<Rightarrow> py_error option \<times> nat list list list" where
  "add_mol_ops mol mol_index [] tbl = (None, tbl)"
| "add_mol_ops mol mol_index ((i, op) # rest) tbl =
     (case add_mol_argnums op mol mol_index i [0..<op_len op] tbl of
        (Some e, tbl') \<Rightarrow> (Some e, tbl')
      | (None, tbl') \<Rightarrow> add_mol_ops mol mol_index rest tbl')"

definition add_mol ::
  "('u, 'k, 'v) ChemNetworkBin \<Rightarrow> 'u MolDatBase \<Rightarrow> ('k, 'v) metadict option
     \<Rightarrow> (py_error + nat) \<times> ('u, 'k, 'v) ChemNetworkBin" where
  "add_mol self mol meta =
     (let mol_uid = uid mol in
      case p_mol_map self mol_uid of
        Some existing \<Rightarrow> (Inr existing, self)
      | None \<Rightarrow>
          (let mol_index = length (p_mol_list self);
               s1 = self\<lparr>p_mol_list := p_mol_list self @ [mol]\<rparr>;
               s2 = s1\<lparr>p_mol_map := (p_mol_map s1)(mol_uid \<mapsto> mol_index)\<rparr>;
               s3 = s2\<lparr>p_mol_meta := p_mol_meta s2 @
                        [case meta of None \<Rightarrow> Map.empty | Some m \<Rightarrow> m]\<rparr>
           in case ops s3 of
                Inl e \<Rightarrow> (Inl e, s3)
              | Inr op_seq \<Rightarrow>
                  (case add_mol_ops mol mol_index (enumerate 0 op_seq) (p_compat_table s3) of
                     (Some e, tbl) \<Rightarrow> (Inl e, s3\<lparr>p_compat_table := tbl\<rparr>)
                   | (None, tbl) \<Rightarrow> (Inr mol_index, s3\<lparr>p_compat_table := tbl\<rparr>))))"

subsection \<open>add_op\<close>

definition add_op ::
  "('u, 'k, 'v) ChemNetworkBin \<Rightarrow> 'u OpDatBase \<Rightarrow> ('k, 'v) metadict option
     \<Rightarrow> (py_error + nat) \<times> ('u, 'k, 'v) ChemNetworkBin" where
  "add_op self op meta =
     (let op_uid = uid op in
      case p_op_map self op_uid of
        Some existing \<Rightarrow> (Inr existing, self)
      | None \<Rightarrow>
          (let op_index = length (p_op_list self);
               s1 = self\<lparr>p_op_list := p_op_list self @ [op]\<rparr>;
               s2 = s1\<lparr>p_op_map := (p_op_map s1)(op_uid \<mapsto> op_index)\<rparr>;
               s3 = s2\<lparr>p_op_meta := p_op_meta s2 @
                        [case meta of None \<Rightarrow> Map.empty | Some m \<Rightarrow> m]\<rparr>;
               s4 = s3\<lparr>p_compat_table := p_compat_table s3 @
                        [map (\<lambda>argnum.
                           map fst (filter (\<lambda>(mol_index, mol). compat op mol argnum)
                                      (enumerate 0 (p_mol_list s3))))
                           [0..<op_len op]]\<rparr>
           in (Inr op_index, s4)))"

subsection \<open>add_rxn\<close>

text \<open>
  The two sanity checks of \<open>add_rxn\<close> evaluate their condition and, when it holds,
  construct an \<open>IndexError\<close> object that is not raised:
  \<^verbatim>\<open>
    if max(max(reactants), max(products)) >= len(self._mol_list):
        IndexError(f"One of the molecule components ... is not in the network.")
    if op >= len(self._op_list):
        IndexError(f"The operator for reaction {rxn} is not in the network.")
  \<close>
  \<open>max\<close> of an empty sequence raises ValueError, before any mutation. The constructed
  exception objects are the unused \<open>mol_check\<close> and \<open>op_check\<close> below. The metadata of
  the new reaction is appended to \<open>self._op_meta\<close>, as the source has it.
\<close>

definition add_rxn ::
  "('u, 'k, 'v) ChemNetworkBin \<Rightarrow> int \<Rightarrow> int list \<Rightarrow> int list \<Rightarrow> ('k, 'v) metadict option
     \<Rightarrow> (py_error + nat) \<times> ('u, 'k, 'v) ChemNetworkBin" where
  "add_rxn self op rs ps meta =
     (let rxn = \<lparr>operator = op, reactants = rs, products = ps\<rparr> in
      case p_rxn_map self rxn of
        Some existing \<Rightarrow> (Inr existing, self)
      | None \<Rightarrow>
          if rs = [] \<or> ps = [] then (Inl ValueError, self)
          else
            (let mol_check =
                   (if max (Max (set rs)) (Max (set ps)) \<ge> int (length (p_mol_list self))
                    then Some IndexError else None);
                 op_check =
                   (if op \<ge> int (length (p_op_list self))
                    then Some IndexError else None);
                 rxn_index = length (p_rxn_list self);
                 s1 = self\<lparr>p_rxn_list := p_rxn_list self @ [rxn]\<rparr>;
                 s2 = s1\<lparr>p_rxn_map := (p_rxn_map s1)(rxn \<mapsto> rxn_index)\<rparr>;
                 s3 = s2\<lparr>p_op_meta := p_op_meta s2 @
                          [case meta of None \<Rightarrow> Map.empty | Some m \<Rightarrow> m]\<rparr>
             in (Inr rxn_index, s3)))"

subsection \<open>Sequences of calls\<close>

text \<open>
  A caller's sequence of insertions; a call that raises leaves the store as the
  exception left it and the sequence goes on.
\<close>

datatype ('u, 'k, 'v) call =
    Add_mol "'u MolDatBase" "('k, 'v) metadict option"
  | Add_op "'u OpDatBase" "('k, 'v) metadict option"
  | Add_rxn int "int list" "int list" "('k, 'v) metadict option"

fun apply_call ::
  "('u, 'k, 'v) call \<Rightarrow> ('u, 'k, 'v) ChemNetworkBin
     \<Rightarrow> (py_error + nat) \<times> ('u, 'k, 'v) ChemNetworkBin" where
  "apply_call (Add_mol mol meta) self = add_mol self mol meta"
| "apply_call (Add_op op meta) self = add_op self op meta"
| "apply_call (Add_rxn op rs ps meta) self = add_rxn self op rs ps meta"

definition run_calls ::
  "('u, 'k, 'v) call list \<Rightarrow> ('u, 'k, 'v) ChemNetworkBin \<Rightarrow> ('u, 'k, 'v) ChemNetworkBin" where
  "run_calls cs self = fold (\<lambda>c s. snd (apply_call c s)) cs self"

section \<open>metadata.py: the metadata pipeline\<close>

subsection \<open>Dictionaries in insertion order\<close>

text \<open>
  The pipeline iterates over its dictionaries, so they are association lists in
  insertion order: \<open>d[k] = v\<close> is \<open>AList.update k v d\<close> (an existing key keeps its place,
  a new key goes last), \<open>d[k]\<close> is \<open>map_of d k\<close> with \<open>None\<close> for KeyError, and
  \<open>d.update(other)\<close> stores the items of \<open>other\<close> one after the other.
\<close>

definition dict_update :: "('a \<times> 'b) list \<Rightarrow> ('a \<times> 'b) list \<Rightarrow> ('a \<times> 'b) list" where
  "dict_update d other = fold (\<lambda>(k, v). AList.update k v) other d"

text \<open>
  \<open>d.keys() & other.keys()\<close> is a set; it is listed here in the order of \<open>d\<close>. The
  two loops that run over it only store under keys that both dictionaries already
  have, so the order of the listing does not show in their result.
\<close>

definition keys_and :: "('a \<times> 'b) list \<Rightarrow> ('a \<times> 'c) list \<Rightarrow> 'a list" where
  "keys_and d other = remdups (filter (\<lambda>k. k \<in> set (map fst other)) (map fst d))"

subsection \<open>KeyOutput\<close>

record 'k KeyOutput =
  mol_keys :: "'k fset"
  op_keys :: "'k fset"
  rxn_keys :: "'k fset"

text \<open>
  The KeyError of \<open>KeyOutput.__and__\<close> with the key set its message names
  (\<open>self.mol_keys & other.mol_keys\<close>, and likewise for operators and reactions).
\<close>

datatype 'k key_conflict =
    Conflicting_molecule "'k fset"
  | Conflicting_operator "'k fset"
  | Conflicting_reaction "'k fset"

definition KeyOutput_and ::
  "'k KeyOutput \<Rightarrow> 'k KeyOutput \<Rightarrow> 'k key_conflict + 'k KeyOutput" where
  "KeyOutput_and self other =
     (let new_mol_keys = mol_keys self |\<union>| mol_keys other in
      if fcard new_mol_keys > fcard (mol_keys self) + fcard (mol_keys other)
      then Inl (Conflicting_molecule (mol_keys self |\<inter>| mol_keys other))
      else
        (let new_op_keys = op_keys self |\<union>| op_keys other in
         if fcard new_op_keys > fcard (op_keys self) + fcard (op_keys other)
         then Inl (Conflicting_operator (op_keys self |\<inter>| op_keys other))
         else
           (let new_rxn_keys = rxn_keys self |\<union>| rxn_keys other in
            if fcard new_rxn_keys > fcard (rxn_keys self) + fcard (rxn_keys other)
            then Inl (Conflicting_reaction (rxn_keys self |\<inter>| rxn_keys other))
            else Inr \<lparr>mol_keys = new_mol_keys, op_keys = new_op_keys,
                      rxn_keys = new_rxn_keys\<rparr>)))"

subsection \<open>Reactions as the pipeline sees them\<close>

text \<open>
  \<open>DataPacketE(i, item, meta)\<close> and
  \<open>ReactionExplicit(operator, reactants, products, reaction_meta)\<close> are declared
  outside the three modules at hand; their fields are the ones \<open>metalib_to_rxn_meta\<close>
  reads and the constructor arguments it passes, in that order. A metadata mapping
  may be \<open>None\<close>.
\<close>

record ('d, 'k, 'v) DataPacketE =
  pk_i :: int
  pk_item :: 'd
  pk_meta :: "('k \<times> 'v) list option"

record ('u, 'k, 'v) ReactionExplicit =
  rx_operator :: "('u OpDatBase, 'k, 'v) DataPacketE"
  rx_reactants :: "('u MolDatBase, 'k, 'v) DataPacketE list"
  rx_products :: "('u MolDatBase, 'k, 'v) DataPacketE list"
  reaction_meta :: "('k \<times> 'v) list option"

text \<open>The identifier under which \<open>metalib_to_rxn_meta\<close> looks a reaction up.\<close>

type_synonym 'u rxn_id = "'u \<times> 'u list \<times> 'u list"

subsection \<open>Metadata State\<close>

record ('h, 'v) MetaPropertyStateSingleProp =
  data :: "('h \<times> 'v) list"
  resolver :: "'v \<Rightarrow> 'v \<Rightarrow> 'v"

text \<open>
  \<open>MetaPropertyStateSingleProp.__or__\<close> mutates one operand and returns it; the
  function below is the object returned. A common key is in both dictionaries, so the
  two lookups under it cannot fail.
\<close>

definition single_or ::
  "('h, 'v) MetaPropertyStateSingleProp \<Rightarrow> ('h, 'v) MetaPropertyStateSingleProp
     \<Rightarrow> ('h, 'v) MetaPropertyStateSingleProp" where
  "single_or self other =
     (if length (data self) = 0 then other
      else if length (data other) = 0 then self\<lparr>resolver := resolver other\<rparr>
      else
        (let common_keys = keys_and (data self) (data other) in
         if length common_keys = 0
         then other\<lparr>data := dict_update (data other) (data self)\<rparr>
         else
           (let resolved_props =
                  fold (\<lambda>item_key acc.
                          AList.update item_key
                            (resolver self (the (map_of (data self) item_key))
                                           (the (map_of (data other) item_key))) acc)
                       common_keys []
            in other\<lparr>data := dict_update (dict_update (data other) (data self))
                                 resolved_props\<rparr>)))"

record ('u, 'k, 'v) MetaPropertyState =
  mol_info :: "('k \<times> ('u, 'v) MetaPropertyStateSingleProp) list"
  op_info :: "('k \<times> ('u, 'v) MetaPropertyStateSingleProp) list"
  rxn_info :: "('k \<times> ('u rxn_id, 'v) MetaPropertyStateSingleProp) list"

text \<open>
  \<open>MetaPropertyState.__or__\<close> runs the same statements on \<open>mol_info\<close>, \<open>op_info\<close> and
  \<open>rxn_info\<close>; \<open>info_or\<close> is that block on one of the three.
\<close>

definition info_or ::
  "('k \<times> ('h, 'v) MetaPropertyStateSingleProp) list
     \<Rightarrow> ('k \<times> ('h, 'v) MetaPropertyStateSingleProp) list
     \<Rightarrow> ('k \<times> ('h, 'v) MetaPropertyStateSingleProp) list" where
  "info_or self_info other_info =
     (if length self_info = 0 then other_info
      else if length other_info \<noteq> 0 then
        (let common_keys = keys_and self_info other_info in
         if length common_keys = 0 then dict_update self_info other_info
         else
           (let resolved_info =
                  fold (\<lambda>prop_key acc.
                          AList.update prop_key
                            (single_or (the (map_of self_info prop_key))
                                       (the (map_of other_info prop_key))) acc)
                       common_keys []
            in dict_update (dict_update self_info other_info) resolved_info))
      else self_info)"

definition state_or ::
  "('u, 'k, 'v) MetaPropertyState \<Rightarrow> ('u, 'k, 'v) MetaPropertyState
     \<Rightarrow> ('u, 'k, 'v) MetaPropertyState" where
  "state_or self other =
     \<lparr>mol_info = info_or (mol_info self) (mol_info other),
      op_info = info_or (op_info self) (op_info other),
      rxn_info = info_or (rxn_info self) (rxn_info other)\<rparr>"

subsection \<open>Property calculators and compositors\<close>

text \<open>
  A calculator (\<open>LocalPropertyCalc\<close> and its five abstract subclasses) is used through
  its \<open>key\<close>, its \<open>resolver\<close> and its \<open>__call__\<close>, which may return \<open>None\<close>; the
  compositors leave \<open>prev_value\<close> at its default. The argument of \<open>__call__\<close> is a
  molecule or operator packet, alone or with the reaction.
\<close>

record ('a, 'k, 'v) LocalPropertyCalc =
  calc_key :: 'k
  calc_resolver :: "'v \<Rightarrow> 'v \<Rightarrow> 'v"
  calc_call :: "'a \<Rightarrow> 'v option"

type_synonym ('u, 'k, 'v) mol_packet = "('u MolDatBase, 'k, 'v) DataPacketE"
type_synonym ('u, 'k, 'v) op_packet = "('u OpDatBase, 'k, 'v) DataPacketE"

datatype ('u, 'k, 'v) PropertyCompositor =
    MolPropertyCompositor "(('u, 'k, 'v) mol_packet, 'k, 'v) LocalPropertyCalc"
  | MolRxnPropertyCompositor
      "(('u, 'k, 'v) mol_packet \<times> ('u, 'k, 'v) ReactionExplicit, 'k, 'v) LocalPropertyCalc"
  | OpPropertyCompositor "(('u, 'k, 'v) op_packet, 'k, 'v) LocalPropertyCalc"
  | OpRxnPropertyCompositor
      "(('u, 'k, 'v) op_packet \<times> ('u, 'k, 'v) ReactionExplicit, 'k, 'v) LocalPropertyCalc"
  | RxnPropertyCompositor "(('u, 'k, 'v) mol_packet, 'k, 'v) LocalPropertyCalc"

text \<open>
  The dictionary comprehension over \<open>chain(rxn.reactants, rxn.products)\<close>: a molecule
  for which the calculator returns \<open>None\<close> is left out.
\<close>

definition mol_props ::
  "(('u, 'k, 'v) mol_packet \<Rightarrow> 'v option) \<Rightarrow> ('u, 'k, 'v) mol_packet list \<Rightarrow> ('u \<times> 'v) list" where
  "mol_props f mols =
     fold (\<lambda>mol props. case f mol of
                          None \<Rightarrow> props
                        | Some calc \<Rightarrow> AList.update (uid (pk_item mol)) calc props)
          mols []"

fun compositor_call ::
  "('u, 'k, 'v) PropertyCompositor \<Rightarrow> ('u, 'k, 'v) ReactionExplicit
     \<Rightarrow> ('u, 'k, 'v) MetaPropertyState" where
  "compositor_call (MolPropertyCompositor c) rxn =
     (let mols = rx_reactants rxn @ rx_products rxn;
          props = mol_props (calc_call c) mols;
          single_state = \<lparr>data = props, resolver = calc_resolver c\<rparr>
      in \<lparr>mol_info = [(calc_key c, single_state)], op_info = [], rxn_info = []\<rparr>)"
| "compositor_call (MolRxnPropertyCompositor c) rxn =
     (let mols = rx_reactants rxn @ rx_products rxn;
          props = mol_props (\<lambda>mol. calc_call c (mol, rxn)) mols;
          single_state = \<lparr>data = props, resolver = calc_resolver c\<rparr>
      in \<lparr>mol_info = [(calc_key c, single_state)], op_info = [], rxn_info = []\<rparr>)"
| "compositor_call (OpPropertyCompositor c) rxn =
     (case calc_call c (rx_operator rxn) of
        None \<Rightarrow> \<lparr>mol_info = [], op_info = [], rxn_info = []\<rparr>
      | Some calc \<Rightarrow>
          (let props = [(uid (pk_item (rx_operator rxn)), calc)];
               single_state = \<lparr>data = props, resolver = calc_resolver c\<rparr>
           in \<lparr>mol_info = [], op_info = [(calc_key c, single_state)], rxn_info = []\<rparr>))"
| "compositor_call (OpRxnPropertyCompositor c) rxn =
     (case calc_call c (rx_operator rxn, rxn) of
        None \<Rightarrow> \<lparr>mol_info = [], op_info = [], rxn_info = []\<rparr>
      | Some calc \<Rightarrow>
          (let props = [(uid (pk_item (rx_operator rxn)), calc)];
               single_state = \<lparr>data = props, resolver = calc_resolver c\<rparr>
           in \<lparr>mol_info = [], op_info = [(calc_key c, single_state)], rxn_info = []\<rparr>))"
| "compositor_call (RxnPropertyCompositor c) rxn =
     (let mols = rx_reactants rxn @ rx_products rxn;
          props = mol_props (calc_call c) mols;
          single_state = \<lparr>data = props, resolver = calc_resolver c\<rparr>
      in \<lparr>mol_info = [(calc_key c, single_state)], op_info = [], rxn_info = []\<rparr>)"

text \<open>The \<open>keys\<close> property of each compositor class.\<close>

fun compositor_keys :: "('u, 'k, 'v) PropertyCompositor \<Rightarrow> 'k KeyOutput" where
  "compositor_keys (MolPropertyCompositor c) =
     \<lparr>mol_keys = {|calc_key c|}, op_keys = {||}, rxn_keys = {||}\<rparr>"
| "compositor_keys (MolRxnPropertyCompositor c) =
     \<lparr>mol_keys = {|calc_key c|}, op_keys = {||}, rxn_keys = {||}\<rparr>"
| "compositor_keys (OpPropertyCompositor c) =
     \<lparr>mol_keys = {||}, op_keys = {|calc_key c|}, rxn_keys = {||}\<rparr>"
| "compositor_keys (OpRxnPropertyCompositor c) =
     \<lparr>mol_keys = {||}, op_keys = {|calc_key c|}, rxn_keys = {||}\<rparr>"
| "compositor_keys (RxnPropertyCompositor c) =
     \<lparr>mol_keys = {|calc_key c|}, op_keys = {||}, rxn_keys = {||}\<rparr>"

text \<open>
  The body of \<open>PropertyCompositor.__and__\<close> is the single expression \<open>...\<close>: the method
  reads neither operand, raises nothing and returns \<open>None\<close>.
\<close>

definition PropertyCompositor_and ::
  "('u, 'k, 'v) PropertyCompositor \<Rightarrow> ('u, 'k, 'v) PropertyCompositor
     \<Rightarrow> ('u, 'k, 'v) PropertyCompositor pyval" where
  "PropertyCompositor_and self other = PyNone"

subsection \<open>Projection of a Metadata State onto the reactions\<close>

text \<open>
  \<open>_mmd(i1, i2)\<close>: with both mappings present the result is \<open>i1 | i2\<close> (of a copy of
  \<open>i1\<close> when it is not a dict), a new dictionary holding the items of \<open>i1\<close> updated
  with those of \<open>i2\<close>.
\<close>

definition mmd ::
  "('k \<times> 'v) list option \<Rightarrow> ('k \<times> 'v) list option \<Rightarrow> ('k \<times> 'v) list option" where
  "mmd i1 i2 =
     (case i1 of
        None \<Rightarrow> (case i2 of None \<Rightarrow> None | Some d2 \<Rightarrow> Some d2)
      | Some d1 \<Rightarrow> (case i2 of None \<Rightarrow> Some d1 | Some d2 \<Rightarrow> Some (dict_update d1 d2)))"

text \<open>
  The three loops that open \<open>metalib_to_rxn_meta\<close> have the same shape:
  \<^verbatim>\<open>
    mol_info: dict[Identifier, dict[Hashable, Any]] = {}
    for meta_key, mol_dict in metalib.mol_info.items():
        for mol_id, key_val in mol_dict.data.items():
            mol_info[mol_id][meta_key] = key_val
  \<close>
  The statement in the inner loop reads \<open>mol_info[mol_id]\<close> (KeyError when the
  identifier has no dictionary yet) and stores into the dictionary it finds.
\<close>

fun invert_entries ::
  "'k \<Rightarrow> ('h \<times> 'v) list \<Rightarrow> ('h \<times> ('k \<times> 'v) list) list
     \<Rightarrow> py_error + ('h \<times> ('k \<times> 'v) list) list" where
  "invert_entries meta_key [] info = Inr info"
| "invert_entries meta_key ((ent_id, key_val) # rest) info =
     (case map_of info ent_id of
        None \<Rightarrow> Inl KeyError
      | Some inner \<Rightarrow>
          invert_entries meta_key rest
            (AList.update ent_id (AList.update meta_key key_val inner) info))"

fun invert_info ::
  "('k \<times> ('h, 'v) MetaPropertyStateSingleProp) list \<Rightarrow> ('h \<times> ('k \<times> 'v) list) list
     \<Rightarrow> py_error + ('h \<times> ('k \<times> 'v) list) list" where
  "invert_info [] info = Inr info"
| "invert_info ((meta_key, ent_dict) # rest) info =
     (case invert_entries meta_key (data ent_dict) info of
        Inl e \<Rightarrow> Inl e
      | Inr info' \<Rightarrow> invert_info rest info')"

text \<open>One packet of the output: \<open>DataPacketE(x.i, x.item, _mmd(x.meta, info[x.item.uid]))\<close>.\<close>

definition project_packet ::
  "('u \<times> ('k \<times> 'v) list) list \<Rightarrow> (('u, 'm) DataUnit_scheme, 'k, 'v) DataPacketE
     \<Rightarrow> py_error + (('u, 'm) DataUnit_scheme, 'k, 'v) DataPacketE" where
  "project_packet info x =
     (case map_of info (uid (pk_item x)) of
        None \<Rightarrow> Inl KeyError
      | Some found \<Rightarrow>
          Inr \<lparr>pk_i = pk_i x, pk_item = pk_item x, pk_meta = mmd (pk_meta x) (Some found)\<rparr>)"

fun project_packets ::
  "('u \<times> ('k \<times> 'v) list) list \<Rightarrow> (('u, 'm) DataUnit_scheme, 'k, 'v) DataPacketE list
     \<Rightarrow> py_error + (('u, 'm) DataUnit_scheme, 'k, 'v) DataPacketE list" where
  "project_packets info [] = Inr []"
| "project_packets info (x # xs) =
     (case project_packet info x of
        Inl e \<Rightarrow> Inl e
      | Inr y \<Rightarrow>
          (case project_packets info xs of Inl e \<Rightarrow> Inl e | Inr ys \<Rightarrow> Inr (y # ys)))"

text \<open>The body of the loop over the reactions, up to the value it yields.\<close>

definition project_rxn ::
  "('u \<times> ('k \<times> 'v) list) list \<Rightarrow> ('u \<times> ('k \<times> 'v) list) list
     \<Rightarrow> ('u rxn_id \<times> ('k \<times> 'v) list) list \<Rightarrow> ('u, 'k, 'v) ReactionExplicit
     \<Rightarrow> py_error + ('u, 'k, 'v) ReactionExplicit" where
  "project_rxn mol_inv op_inv rxn_inv rxn =
     (case project_packet op_inv (rx_operator rxn) of
        Inl e \<Rightarrow> Inl e
      | Inr op_data \<Rightarrow>
          (case project_packets mol_inv (rx_reactants rxn) of
             Inl e \<Rightarrow> Inl e
           | Inr reactant_data \<Rightarrow>
               (case project_packets mol_inv (rx_products rxn) of
                  Inl e \<Rightarrow> Inl e
                | Inr product_data \<Rightarrow>
                    (case map_of rxn_inv
                            (uid (pk_item (rx_operator rxn)),
                             map (\<lambda>mol. uid (pk_item mol)) (rx_reactants rxn),
                             map (\<lambda>mol. uid (pk_item mol)) (rx_products rxn)) of
                       None \<Rightarrow> Inl KeyError
                     | Some found \<Rightarrow>
                         Inr \<lparr>rx_operator = op_data, rx_reactants = reactant_data,
                              rx_products = product_data,
                              reaction_meta = mmd (reaction_meta rxn) (Some found)\<rparr>))))"

text \<open>
  A stream of (reaction, passing) pairs is the list of the items it yields and the
  exception, if any, that ends it. \<open>metalib_to_rxn_meta\<close> is a generator: what it
  raises, it raises when its output is consumed, after the items yielded before.
\<close>

type_synonym ('u, 'k, 'v) rxn_stream =
  "(('u, 'k, 'v) ReactionExplicit \<times> bool) list \<times> py_error option"

fun project_rxns ::
  "('u \<times> ('k \<times> 'v) list) list \<Rightarrow> ('u \<times> ('k \<times> 'v) list) list
     \<Rightarrow> ('u rxn_id \<times> ('k \<times> 'v) list) list
     \<Rightarrow> (('u, 'k, 'v) ReactionExplicit \<times> bool) list \<Rightarrow> ('u, 'k, 'v) rxn_stream" where
  "project_rxns mol_inv op_inv rxn_inv [] = ([], None)"
| "project_rxns mol_inv op_inv rxn_inv (rxn_all # rest) =
     (case project_rxn mol_inv op_inv rxn_inv (fst rxn_all) of
        Inl e \<Rightarrow> ([], Some e)
      | Inr new_rxn \<Rightarrow>
          (case project_rxns mol_inv op_inv rxn_inv rest of
             (ys, err) \<Rightarrow> ((new_rxn, snd rxn_all) # ys, err)))"

definition metalib_to_rxn_meta ::
  "('u, 'k, 'v) MetaPropertyState \<Rightarrow> (('u, 'k, 'v) ReactionExplicit \<times> bool) list
     \<Rightarrow> ('u, 'k, 'v) rxn_stream" where
  "metalib_to_rxn_meta metalib rxns =
     (case invert_info (mol_info metalib) [] of
        Inl e \<Rightarrow> ([], Some e)
      | Inr mol_inv \<Rightarrow>
          (case invert_info (op_info metalib) [] of
             Inl e \<Rightarrow> ([], Some e)
           | Inr op_inv \<Rightarrow>
               (case invert_info (rxn_info metalib) [] of
                  Inl e \<Rightarrow> ([], Some e)
                | Inr rxn_inv \<Rightarrow> project_rxns mol_inv op_inv rxn_inv rxns)))"

subsection \<open>Analysis steps\<close>

text \<open>
  \<open>logreduce\<close> (module \<open>utils\<close>) and \<open>ReactionFilterBase\<close> (module \<open>filters\<close>) are not among
  the three modules at hand. The reduction is the parameter \<open>lr\<close>: it receives
  \<open>operator.or_\<close> and the Metadata States in stream order, and returns a Metadata State
  or raises. A filter is the predicate it computes on a reaction.

  \<open>RxnAnalysisStepProp.execute\<close> materialises its input (\<open>list(rxns)\<close>, which re-raises
  what the input raises), calls the compositor on the passing reactions and hands the
  reduced state to \<open>metalib_to_rxn_meta\<close> with the whole list.
  \<open>RxnAnalysisStepFilter.execute\<close> yields one pair per pair read.
\<close>

datatype ('u, 'k, 'v) RxnAnalysisStep =
    RxnAnalysisStepProp "('u, 'k, 'v) PropertyCompositor"
  | RxnAnalysisStepFilter "('u, 'k, 'v) ReactionExplicit \<Rightarrow> bool"
  | RxnAnalysisStepCompound "('u, 'k, 'v) RxnAnalysisStep" "('u, 'k, 'v) RxnAnalysisStep"

type_synonym ('u, 'k, 'v) reducer =
  "(('u, 'k, 'v) MetaPropertyState \<Rightarrow> ('u, 'k, 'v) MetaPropertyState
      \<Rightarrow> ('u, 'k, 'v) MetaPropertyState)
     \<Rightarrow> ('u, 'k, 'v) MetaPropertyState list \<Rightarrow> py_error + ('u, 'k, 'v) MetaPropertyState"

fun execute ::
  "('u, 'k, 'v) reducer \<Rightarrow> ('u, 'k, 'v) RxnAnalysisStep \<Rightarrow> ('u, 'k, 'v) rxn_stream
     \<Rightarrow> ('u, 'k, 'v) rxn_stream" where
  "execute lr (RxnAnalysisStepProp prop) rxns =
     (case snd rxns of
        Some e \<Rightarrow> ([], Some e)
      | None \<Rightarrow>
          (let rxn_list = fst rxns;
               meta_lib = map (\<lambda>rxn. compositor_call prop (fst rxn)) (filter snd rxn_list)
           in case lr state_or meta_lib of
                Inl e \<Rightarrow> ([], Some e)
              | Inr prop_map \<Rightarrow> metalib_to_rxn_meta prop_map rxn_list))"
| "execute lr (RxnAnalysisStepFilter arg) rxns =
     (map (\<lambda>(rxn, pass_filter).
             if \<not> pass_filter \<or> \<not> arg rxn then (rxn, False) else (rxn, True))
          (fst rxns),
      snd rxns)"
| "execute lr (RxnAnalysisStepCompound step1 step2) rxns =
     execute lr step2 (execute lr step1 rxns)"

section \<open>Notions used to state the properties\<close>

text \<open>
  The compatibility table computed from scratch from the two registries: one row per
  operator, one cell per slot, the cell listing in ascending order the handles of the
  molecules the operator's predicate accepts in that slot.
\<close>

definition table_of :: "'u OpDatBase list \<Rightarrow> 'u MolDatBase list \<Rightarrow> nat list list list" where
  "table_of opl mols =
     map (\<lambda>op. map (\<lambda>argnum. filter (\<lambda>m. compat op (mols ! m) argnum) [0..<length mols])
                  [0..<op_len op]) opl"

text \<open>
  A row of the table after the slots in \<open>A\<close> have been visited for a new molecule
  \<open>n\<close>: the invariant of the inner loop written in \<open>add_mol\<close>.
\<close>

definition mark_row ::
  "'u OpDatBase \<Rightarrow> 'u MolDatBase \<Rightarrow> nat \<Rightarrow> nat set \<Rightarrow> nat list list \<Rightarrow> nat list list" where
  "mark_row op mol n A row =
     map (\<lambda>(a, cell). if a \<in> A \<and> compat op mol a then cell @ [n] else cell)
         (enumerate 0 row)"

text \<open>
  A Metadata State holds an entry when, in one of its three partitions, some key's
  handle-to-value dictionary is not empty.
\<close>

definition has_entry :: "('u, 'k, 'v) MetaPropertyState \<Rightarrow> bool" where
  "has_entry metalib \<longleftrightarrow>
     list_ex (\<lambda>(meta_key, d). data d \<noteq> []) (mol_info metalib) \<or>
     list_ex (\<lambda>(meta_key, d). data d \<noteq> []) (op_info metalib) \<or>
     list_ex (\<lambda>(meta_key, d). data d \<noteq> []) (rxn_info metalib)"

text \<open>
  One reducer to instantiate the parameter \<open>lr\<close> with: the left-to-right reduction
  of \<open>functools.reduce\<close>, which raises TypeError on an empty sequence.
\<close>

definition reduce_left :: "('a \<Rightarrow> 'a \<Rightarrow> 'a) \<Rightarrow> 'a list \<Rightarrow> py_error + 'a" where
  "reduce_left f xs =
     (case xs of [] \<Rightarrow> Inl TypeError | x # rest \<Rightarrow> Inr (fold (\<lambda>y acc. f acc y) rest x))"

section \<open>Example inputs\<close>

text \<open>
  The store of the specification's scenario: an operator \<open>O\<close> of two slots that accepts
  \<open>m1\<close> and \<open>m2\<close> in slot 0 and \<open>m2\<close> and \<open>m3\<close> in slot 1, inserted after the three
  molecules.
\<close>

definition ex_m1 :: "string MolDatBase" where
  "ex_m1 = \<lparr>uid = ''m1'', blob = []\<rparr>"

definition ex_m2 :: "string MolDatBase" where
  "ex_m2 = \<lparr>uid = ''m2'', blob = []\<rparr>"

definition ex_m3 :: "string MolDatBase" where
  "ex_m3 = \<lparr>uid = ''m3'', blob = []\<rparr>"

definition ex_O :: "string OpDatBase" where
  "ex_O = \<lparr>uid = ''O'', blob = [], op_len = 2,
            compat = (\<lambda>mol argnum.
              (argnum = 0 \<and> (uid mol = ''m1'' \<or> uid mol = ''m2'')) \<or>
              (argnum = 1 \<and> (uid mol = ''m2'' \<or> uid mol = ''m3'')))\<rparr>"

definition ex_calls :: "(string, string, nat) call list" where
  "ex_calls = [Add_mol ex_m1 None, Add_mol ex_m2 None, Add_mol ex_m3 None, Add_op ex_O None]"

definition ex_net :: "(string, string, nat) ChemNetworkBin" where
  "ex_net = run_calls ex_calls init"

text \<open>The store with no entity, at the types of the examples.\<close>

definition ex_empty :: "(string, string, nat) ChemNetworkBin" where
  "ex_empty = init"

text \<open>Two reactions over the scenario's entities, a mass calculator and a filter.\<close>

definition ex_pk :: "'d \<Rightarrow> int \<Rightarrow> ('d, string, nat) DataPacketE" where
  "ex_pk d n = \<lparr>pk_i = n, pk_item = d, pk_meta = None\<rparr>"

definition ex_R1 :: "(string, string, nat) ReactionExplicit" where
  "ex_R1 = \<lparr>rx_operator = ex_pk ex_O 0, rx_reactants = [ex_pk ex_m1 0],
             rx_products = [ex_pk ex_m2 1], reaction_meta = None\<rparr>"

definition ex_R2 :: "(string, string, nat) ReactionExplicit" where
  "ex_R2 = \<lparr>rx_operator = ex_pk ex_O 0, rx_reactants = [ex_pk ex_m2 1],
             rx_products = [ex_pk ex_m3 2], reaction_meta = None\<rparr>"

definition ex_mass :: "((string, string, nat) mol_packet, string, nat) LocalPropertyCalc" where
  "ex_mass = \<lparr>calc_key = ''mass'', calc_resolver = (\<lambda>a b. a),
               calc_call = (\<lambda>mol. Some 18)\<rparr>"

text \<open>The filter passes a reaction whose only product is \<open>m2\<close>: it passes R1, not R2.\<close>

definition ex_filter :: "(string, string, nat) ReactionExplicit \<Rightarrow> bool" where
  "ex_filter rxn \<longleftrightarrow> map (\<lambda>mol. uid (pk_item mol)) (rx_products rxn) = [''m2'']"

definition ex_pipeline :: "(string, string, nat) RxnAnalysisStep" where
  "ex_pipeline =
     RxnAnalysisStepCompound (RxnAnalysisStepFilter ex_filter)
       (RxnAnalysisStepProp (MolPropertyCompositor ex_mass))"

text \<open>Two fragments for one key: the left holds a value, the right holds none.\<close>

definition ex_left :: "(string, nat) MetaPropertyStateSingleProp" where
  "ex_left = \<lparr>data = [(''m1'', 1)], resolver = (\<lambda>a b. a)\<rparr>"

definition ex_right :: "(string, nat) MetaPropertyStateSingleProp" where
  "ex_right = \<lparr>data = [], resolver = (\<lambda>a b. b)\<rparr>"

definition ex_both :: "(string, nat) MetaPropertyStateSingleProp" where
  "ex_both = \<lparr>data = [(''m2'', 5), (''m1'', 7)], resolver = (\<lambda>a b. a + b)\<rparr>"

text \<open>
  Stores built by one more call, one with reaction metadata set by hand, and the two
  orders of inserting the operator and the molecule \<open>m1\<close>. No identifier of the examples
  is a Python int.
\<close>

definition ex_rxn_net :: "(string, string, nat) ChemNetworkBin" where
  "ex_rxn_net = snd (add_rxn ex_net 0 [0] [1] None)"

definition ex_one_mol :: "(string, string, nat) ChemNetworkBin" where
  "ex_one_mol = snd (add_mol ex_empty ex_m1 (Some [''mass'' \<mapsto> PyVal 18]))"

definition ex_one_op :: "(string, string, nat) ChemNetworkBin" where
  "ex_one_op = snd (add_op ex_empty ex_O None)"

definition ex_op_then_mol :: "(string, string, nat) ChemNetworkBin" where
  "ex_op_then_mol = snd (add_mol ex_one_op ex_m1 None)"

definition ex_mol_then_op :: "(string, string, nat) ChemNetworkBin" where
  "ex_mol_then_op = snd (add_op (snd (add_mol ex_empty ex_m1 None)) ex_O None)"

definition ex_not_int :: "string \<Rightarrow> int option" where
  "ex_not_int u = None"

definition ex_rxn_meta_net :: "(string, string, nat) ChemNetworkBin" where
  "ex_rxn_meta_net = ex_rxn_net\<lparr>p_rxn_meta := [[''yield'' \<mapsto> PyVal 3]]\<rparr>"

section \<open>The loops written in add_mol\<close>

text \<open>
  Run on the table computed from scratch for the operators and the molecules
  registered so far, the two loops give the table computed from scratch with the new
  molecule added; \<open>add_op\<close> appends the row computed from scratch. The table falls
  behind the registries only where the loops are not reached.
\<close>

lemma length_mark_row [simp]: "length (mark_row op mol n A row) = length row"
  by (simp add: mark_row_def)

lemma nth_mark_row:
  "a < length row \<Longrightarrow>
   mark_row op mol n A row ! a =
     (if a \<in> A \<and> compat op mol a then row ! a @ [n] else row ! a)"
  by (simp add: mark_row_def nth_enumerate_eq)

lemma mark_row_empty [simp]: "mark_row op mol n {} row = row"
  by (rule nth_equalityI) (simp_all add: nth_mark_row)

lemma mark_row_step:
  "a < length row \<Longrightarrow> a \<notin> A \<Longrightarrow> compat op mol a \<Longrightarrow>
   mark_row op mol n A (row[a := row ! a @ [n]]) = mark_row op mol n (insert a A) row"
  by (rule nth_equalityI) (auto simp: nth_mark_row nth_list_update)

lemma mark_row_skip:
  "\<not> compat op mol a \<Longrightarrow> mark_row op mol n (insert a A) row = mark_row op mol n A row"
  by (rule nth_equalityI) (auto simp: nth_mark_row)

lemma add_mol_argnums_ok:
  "i < length tbl \<Longrightarrow> \<forall>a\<in>set as. a < length (tbl ! i) \<Longrightarrow> distinct as \<Longrightarrow>
   add_mol_argnums op mol n i as tbl = (None, tbl[i := mark_row op mol n (set as) (tbl ! i)])"
proof (induction as arbitrary: tbl)
  case Nil
  then show ?case by simp
next
  case (Cons a as)
  show ?case
  proof (cases "compat op mol a")
    case True
    let ?tbl = "tbl[i := (tbl ! i)[a := tbl ! i ! a @ [n]]]"
    have "add_mol_argnums op mol n i as ?tbl = (None, ?tbl[i := mark_row op mol n (set as) (?tbl ! i)])"
      using Cons.prems by (intro Cons.IH) auto
    then show ?thesis using Cons.prems True
      by (simp add: mark_row_step)
  next
    case False
    then show ?thesis using Cons.prems Cons.IH[of tbl]
      by (simp add: mark_row_skip)
  qed
qed

lemma add_mol_ops_ok:
  "j + length opl \<le> length tbl \<Longrightarrow>
   \<forall>k<length opl. op_len (opl ! k) \<le> length (tbl ! (j + k)) \<Longrightarrow>
   \<exists>tbl'. add_mol_ops mol n (enumerate j opl) tbl = (None, tbl') \<and>
          length tbl' = length tbl \<and>
          (\<forall>k<length tbl. tbl' ! k =
             (if j \<le> k \<and> k < j + length opl
              then mark_row (opl ! (k - j)) mol n {..<op_len (opl ! (k - j))} (tbl ! k)
              else tbl ! k))"
proof (induction opl arbitrary: j tbl)
  case Nil
  then show ?case by auto
next
  case (Cons op rest)
  let ?t1 = "tbl[j := mark_row op mol n {..<op_len op} (tbl ! j)]"
  have j: "j < length tbl" using Cons.prems(1) by simp
  have len0: "op_len op \<le> length (tbl ! j)" using Cons.prems(2) by force
  have inner: "add_mol_argnums op mol n j [0..<op_len op] tbl = (None, ?t1)"
    using add_mol_argnums_ok[of j tbl "[0..<op_len op]" op mol n] j len0
    by (simp add: lessThan_atLeast0)
  have p1: "Suc j + length rest \<le> length ?t1" using Cons.prems(1) by simp
  have p2: "\<forall>k<length rest. op_len (rest ! k) \<le> length (?t1 ! (Suc j + k))"
  proof (intro allI impI)
    fix k assume k: "k < length rest"
    then have "op_len ((op # rest) ! Suc k) \<le> length (tbl ! (j + Suc k))"
      using Cons.prems(2) by (metis Suc_less_eq length_Cons)
    then show "op_len (rest ! k) \<le> length (?t1 ! (Suc j + k))" by simp
  qed
  from Cons.IH[OF p1 p2] obtain tbl' where
    r: "add_mol_ops mol n (enumerate (Suc j) rest) ?t1 = (None, tbl')"
    and l: "length tbl' = length ?t1"
    and n: "\<forall>k<length ?t1. tbl' ! k =
             (if Suc j \<le> k \<and> k < Suc j + length rest
              then mark_row (rest ! (k - Suc j)) mol n {..<op_len (rest ! (k - Suc j))} (?t1 ! k)
              else ?t1 ! k)"
    by blast
  have "add_mol_ops mol n (enumerate j (op # rest)) tbl = (None, tbl')"
    using inner r by simp
  moreover have "length tbl' = length tbl" using l by simp
  moreover have "\<forall>k<length tbl. tbl' ! k =
             (if j \<le> k \<and> k < j + length (op # rest)
              then mark_row ((op # rest) ! (k - j)) mol n {..<op_len ((op # rest) ! (k - j))} (tbl ! k)
              else tbl ! k)"
  proof (intro allI impI)
    fix k assume k: "k < length tbl"
    show "tbl' ! k =
             (if j \<le> k \<and> k < j + length (op # rest)
              then mark_row ((op # rest) ! (k - j)) mol n {..<op_len ((op # rest) ! (k - j))} (tbl ! k)
              else tbl ! k)"
    proof (cases "k = j")
      case True
      then show ?thesis using n k by simp
    next
      case False
      then show ?thesis using n k by (auto simp: nth_Cons' Suc_diff_le)
    qed
  qed
  ultimately show ?case by blast
qed

lemma filter_enumerate_fst:
  "map fst (filter (\<lambda>(i, x). P x) (enumerate 0 xs)) = filter (\<lambda>i. P (xs ! i)) [0..<length xs]"
proof (induction xs rule: rev_induct)
  case Nil
  then show ?case by simp
next
  case (snoc x xs)
  have "filter (\<lambda>i. P ((xs @ [x]) ! i)) [0..<length xs] = filter (\<lambda>i. P (xs ! i)) [0..<length xs]"
    by (rule filter_cong) (simp_all add: nth_append)
  then show ?case using snoc by (simp add: enumerate_append_eq)
qed

lemma table_of_snoc_op:
  "table_of (opl @ [op]) mols = table_of opl mols @
     [map (\<lambda>argnum. map fst (filter (\<lambda>(mol_index, mol). compat op mol argnum) (enumerate 0 mols)))
        [0..<op_len op]]"
  by (simp add: table_of_def filter_enumerate_fst)

lemma table_of_snoc_mol:
  "add_mol_ops mol (length mols) (enumerate 0 opl) (table_of opl mols) =
     (None, table_of opl (mols @ [mol]))"
proof -
  have a: "0 + length opl \<le> length (table_of opl mols)" by (simp add: table_of_def)
  have b: "\<forall>k<length opl. op_len (opl ! k) \<le> length (table_of opl mols ! (0 + k))"
    by (simp add: table_of_def)
  from add_mol_ops_ok[OF a b, of mol "length mols"] obtain tbl' where
    r: "add_mol_ops mol (length mols) (enumerate 0 opl) (table_of opl mols) = (None, tbl')"
    and l: "length tbl' = length (table_of opl mols)"
    and n: "\<forall>k<length (table_of opl mols). tbl' ! k =
       (if 0 \<le> k \<and> k < 0 + length opl
        then mark_row (opl ! (k - 0)) mol (length mols) {..<op_len (opl ! (k - 0))} (table_of opl mols ! k)
        else table_of opl mols ! k)"
    by blast
  have "tbl' = table_of opl (mols @ [mol])"
  proof (rule nth_equalityI)
    show "length tbl' = length (table_of opl (mols @ [mol]))"
      using l by (simp add: table_of_def)
  next
    fix k assume "k < length tbl'"
    then have k: "k < length opl" using l by (simp add: table_of_def)
    have row: "tbl' ! k = mark_row (opl ! k) mol (length mols) {..<op_len (opl ! k)} (table_of opl mols ! k)"
      using n k by (simp add: table_of_def)
    show "tbl' ! k = table_of opl (mols @ [mol]) ! k"
      unfolding row
    proof (rule nth_equalityI)
      show "length (mark_row (opl ! k) mol (length mols) {..<op_len (opl ! k)} (table_of opl mols ! k)) =
            length (table_of opl (mols @ [mol]) ! k)"
        using k by (simp add: table_of_def)
    next
      fix a assume "a < length (mark_row (opl ! k) mol (length mols) {..<op_len (opl ! k)} (table_of opl mols ! k))"
      then have a: "a < op_len (opl ! k)" using k by (simp add: table_of_def)
      have f: "filter (\<lambda>m. compat (opl ! k) ((mols @ [mol]) ! m) a) [0..<length mols] =
               filter (\<lambda>m. compat (opl ! k) (mols ! m) a) [0..<length mols]"
        by (rule filter_cong) (simp_all add: nth_append)
      show "mark_row (opl ! k) mol (length mols) {..<op_len (opl ! k)} (table_of opl mols ! k) ! a =
            table_of opl (mols @ [mol]) ! k ! a"
        using k a f by (simp add: nth_mark_row table_of_def)
    qed
  qed
  then show ?thesis using r by simp
qed

section \<open>Sequences of calls and the example stores, evaluated\<close>

lemma run_calls_Nil [simp]: "run_calls [] s = s"
  by (simp add: run_calls_def)

lemma run_calls_Cons [simp]: "run_calls (c # cs) s = run_calls cs (snd (apply_call c s))"
  by (simp add: run_calls_def)

lemma run_calls_append [simp]: "run_calls (cs @ ds) s = run_calls ds (run_calls cs s)"
  by (simp add: run_calls_def)

text \<open>
  A molecule whose identity is not in the map is registered, and the read of
  \<open>self.ops\<close> then ends the call: the table is not touched and no handle is returned.
\<close>

lemma add_mol_novel:
  "p_mol_map s (uid m) = None \<Longrightarrow>
   add_mol s m meta =
     (Inl NameError,
      s\<lparr>p_mol_list := p_mol_list s @ [m],
        p_mol_map := (p_mol_map s)(uid m \<mapsto> length (p_mol_list s)),
        p_mol_meta := p_mol_meta s @ [case meta of None \<Rightarrow> Map.empty | Some d \<Rightarrow> d]\<rparr>)"
  by (simp add: add_mol_def ops_def Let_def)

lemmas ex_defs = ex_net_def ex_calls_def init_def add_mol_def ops_def add_op_def Let_def
      ex_m1_def ex_m2_def ex_m3_def ex_O_def

lemma ex_net_mols: "p_mol_list ex_net = [ex_m1, ex_m2, ex_m3]"
  by (simp add: ex_defs)

lemma ex_net_ops: "p_op_list ex_net = [ex_O]"
  by (simp add: ex_defs)

lemma ex_net_table: "p_compat_table ex_net = [[[0, 1], [1, 2]]]"
  by (simp add: ex_defs enumerate_eq_zip numeral_2_eq_2)

lemma ex_net_mol_map:
  "p_mol_map ex_net = [''m1'' \<mapsto> 0, ''m2'' \<mapsto> 1, ''m3'' \<mapsto> 2]"
  by (simp add: ex_defs numeral_2_eq_2)

lemma ex_net_op_map: "p_op_map ex_net = [''O'' \<mapsto> 0]"
  by (simp add: ex_defs)

lemma ex_net_rxn_map: "p_rxn_map ex_net = Map.empty"
  by (simp add: ex_defs)

lemma ex_net_rxns: "p_rxn_list ex_net = []"
  by (simp add: ex_defs)

lemma ex_one_op_first: "add_op ex_empty ex_O None = (Inr 0, ex_one_op)"
  by (simp add: ex_one_op_def add_op_def ex_empty_def init_def Let_def)

lemma ex_one_op_fields:
  "p_op_list ex_one_op = [ex_O] \<and> p_mol_list ex_one_op = [] \<and>
   p_mol_map ex_one_op = Map.empty \<and> p_compat_table ex_one_op = [[[], []]]"
  by (simp add: ex_one_op_def add_op_def ex_empty_def init_def Let_def ex_O_def
      numeral_2_eq_2)

section \<open>C7: the compatibility table after insertions in both orders\<close>

text \<open>
  C7 says that after any sequence of \<open>add_mol\<close> and \<open>add_op\<close> calls the table entry of
  every operator and slot is the set of the molecules that satisfy the slot's
  predicate, whichever was inserted first. On the empty store, \<open>add_op(O)\<close> followed by
  \<open>add_mol(m1)\<close>: the second call registers \<open>m1\<close> under handle 0 and raises NameError
  at the read of \<open>self.ops\<close>, so the row of \<open>O\<close> stays \<open>[[], []]\<close> although \<open>O\<close> accepts
  \<open>m1\<close> in slot 0 and the table computed from scratch is \<open>[[[0], []]]\<close>. In the other
  order \<open>add_op\<close> finds \<open>m1\<close> registered and builds \<open>[[[0], []]]\<close>: the two orders do not
  give the same table.
\<close>

theorem add_mol_after_add_op_leaves_table_behind:
  "add_op ex_empty ex_O None = (Inr 0, ex_one_op) \<and>
   add_mol ex_one_op ex_m1 None = (Inl NameError, ex_op_then_mol) \<and>
   p_op_list ex_op_then_mol = [ex_O] \<and>
   p_mol_list ex_op_then_mol = [ex_m1] \<and>
   p_mol_map ex_op_then_mol (uid ex_m1) = Some 0 \<and>
   compat ex_O ex_m1 0 \<and>
   compat_table ex_op_then_mol 0 = Inr [[], []] \<and>
   table_of (p_op_list ex_op_then_mol) (p_mol_list ex_op_then_mol) = [[[0], []]] \<and>
   p_op_list ex_mol_then_op = [ex_O] \<and>
   p_mol_list ex_mol_then_op = [ex_m1] \<and>
   compat_table ex_mol_then_op 0 = Inr [[0], []]"
proof -
  have n: "p_mol_map ex_one_op (uid ex_m1) = None"
    using ex_one_op_fields by simp
  have a: "add_mol ex_one_op ex_m1 None = (Inl NameError, ex_op_then_mol)"
    using add_mol_novel[OF n, of None] by (simp add: ex_op_then_mol_def)
  have f: "p_op_list ex_op_then_mol = [ex_O]" "p_mol_list ex_op_then_mol = [ex_m1]"
    "p_mol_map ex_op_then_mol (uid ex_m1) = Some 0"
    "p_compat_table ex_op_then_mol = [[[], []]]"
    using add_mol_novel[OF n, of None] ex_one_op_fields
    by (simp_all add: ex_op_then_mol_def)
  have c: "compat ex_O ex_m1 0" by (simp add: ex_O_def ex_m1_def)
  have t: "table_of [ex_O] [ex_m1] = [[[0], []]]"
    by (simp add: table_of_def ex_O_def ex_m1_def numeral_2_eq_2)
  have g: "p_op_list ex_mol_then_op = [ex_O]" "p_mol_list ex_mol_then_op = [ex_m1]"
    "p_compat_table ex_mol_then_op = [[[0], []]]"
    by (simp_all add: ex_mol_then_op_def add_mol_def ops_def add_op_def ex_empty_def init_def
        Let_def ex_O_def ex_m1_def numeral_2_eq_2)
  show ?thesis
    using a f c t g ex_one_op_first by (simp add: compat_table_def py_index_def)
qed

section \<open>C1: add_rxn with a handle outside the registries\<close>

text \<open>
  A novel triple with at least one reactant and one product is registered under the
  next handle, whatever its handles are: the outcome of the two checks is not used.
\<close>

lemma add_rxn_novel:
  "p_rxn_map s \<lparr>operator = op, reactants = rs, products = ps\<rparr> = None \<Longrightarrow>
   rs \<noteq> [] \<Longrightarrow> ps \<noteq> [] \<Longrightarrow>
   fst (add_rxn s op rs ps meta) = Inr (length (p_rxn_list s)) \<and>
   p_rxn_list (snd (add_rxn s op rs ps meta)) =
     p_rxn_list s @ [\<lparr>operator = op, reactants = rs, products = ps\<rparr>]"
  by (simp add: add_rxn_def Let_def)

text \<open>
  C1 says that \<open>add_rxn\<close> with a reactant, product or operator handle at or beyond the
  registry length fails with the out-of-range error and appends nothing. The two
  checks of the source construct the IndexError and drop it. On the empty store,
  \<open>add_rxn(0, [0], [0])\<close> names an operator and two molecules that do not exist; the
  call returns the new handle 0 and the reaction is registered.
\<close>

theorem add_rxn_out_of_range_is_accepted:
  "add_rxn ex_empty 0 [0] [0] None =
     (Inr 0,
      ex_empty\<lparr>p_rxn_list := [\<lparr>operator = 0, reactants = [0], products = [0]\<rparr>],
               p_rxn_map := [\<lparr>operator = 0, reactants = [0], products = [0]\<rparr> \<mapsto> 0],
               p_op_meta := [Map.empty]\<rparr>)"
  by (simp add: add_rxn_def ex_empty_def init_def Let_def)

section \<open>C8: inserting twice\<close>

lemma add_mol_existing: "p_mol_map s (uid m) = Some h \<Longrightarrow> add_mol s m meta = (Inr h, s)"
  by (simp add: add_mol_def)

lemma add_op_existing: "p_op_map s (uid op) = Some h \<Longrightarrow> add_op s op meta = (Inr h, s)"
  by (simp add: add_op_def)

lemma add_rxn_existing:
  "p_rxn_map s \<lparr>operator = op, reactants = rs, products = ps\<rparr> = Some h \<Longrightarrow>
   add_rxn s op rs ps meta = (Inr h, s)"
  by (simp add: add_rxn_def)

lemma add_mol_registers:
  "add_mol s m meta = (Inr h, s') \<Longrightarrow> p_mol_map s' (uid m) = Some h"
  by (auto simp: add_mol_def ops_def Let_def split: option.splits)

lemma add_op_registers:
  "add_op s op meta = (Inr h, s') \<Longrightarrow> p_op_map s' (uid op) = Some h"
  by (auto simp: add_op_def Let_def split: option.splits prod.splits)

lemma add_rxn_registers:
  "add_rxn s op rs ps meta = (Inr h, s') \<Longrightarrow>
   p_rxn_map s' \<lparr>operator = op, reactants = rs, products = ps\<rparr> = Some h"
  by (auto simp: add_rxn_def Let_def split: option.splits prod.splits if_splits)

lemma ex_rxn_net_first: "add_rxn ex_net 0 [0] [1] None = (Inr 0, ex_rxn_net)"
  by (simp add: ex_rxn_net_def add_rxn_def ex_net_rxn_map ex_net_rxns Let_def)

text \<open>
  What holds of every store: an identity (a triple) that is present is answered with
  its handle and the store is left as it was; and an \<open>add_op\<close> or \<open>add_rxn\<close> call that
  returned a handle returns the same handle when it is made again.
\<close>

lemma insert_present_is_noop:
  "(p_mol_map s (uid m) = Some h \<longrightarrow> add_mol s m meta = (Inr h, s)) \<and>
   (p_op_map s (uid op) = Some h \<longrightarrow> add_op s op meta = (Inr h, s)) \<and>
   (p_rxn_map s \<lparr>operator = o_i, reactants = rs, products = ps\<rparr> = Some h \<longrightarrow>
      add_rxn s o_i rs ps meta = (Inr h, s)) \<and>
   (add_op s op meta = (Inr h, s') \<longrightarrow> add_op s' op meta' = (Inr h, s')) \<and>
   (add_rxn s o_i rs ps meta = (Inr h, s') \<longrightarrow> add_rxn s' o_i rs ps meta' = (Inr h, s'))"
proof (intro conjI impI)
  assume "p_mol_map s (uid m) = Some h"
  then show "add_mol s m meta = (Inr h, s)" by (rule add_mol_existing)
next
  assume "p_op_map s (uid op) = Some h"
  then show "add_op s op meta = (Inr h, s)" by (rule add_op_existing)
next
  assume "p_rxn_map s \<lparr>operator = o_i, reactants = rs, products = ps\<rparr> = Some h"
  then show "add_rxn s o_i rs ps meta = (Inr h, s)" by (rule add_rxn_existing)
next
  assume "add_op s op meta = (Inr h, s')"
  then have "p_op_map s' (uid op) = Some h" by (rule add_op_registers)
  then show "add_op s' op meta' = (Inr h, s')" by (rule add_op_existing)
next
  assume "add_rxn s o_i rs ps meta = (Inr h, s')"
  then have "p_rxn_map s' \<lparr>operator = o_i, reactants = rs, products = ps\<rparr> = Some h"
    by (rule add_rxn_registers)
  then show "add_rxn s' o_i rs ps meta' = (Inr h, s')" by (rule add_rxn_existing)
qed

text \<open>
  C8 says that a repeated insert of the same argument always returns the same handle
  as the first insert. On the empty store the first \<open>add_mol(m1)\<close> returns no handle:
  it registers \<open>m1\<close> under handle 0 and raises NameError at the read of \<open>self.ops\<close>. The
  second \<open>add_mol(m1)\<close> finds the identity in the map, returns 0 and changes nothing.
\<close>

theorem add_mol_first_insert_raises:
  "p_mol_map ex_empty (uid ex_m1) = None \<and>
   add_mol ex_empty ex_m1 (Some [''mass'' \<mapsto> PyVal 18]) = (Inl NameError, ex_one_mol) \<and>
   p_mol_list ex_one_mol = [ex_m1] \<and>
   p_mol_map ex_one_mol (uid ex_m1) = Some 0 \<and>
   add_mol ex_one_mol ex_m1 None = (Inr 0, ex_one_mol)"
proof -
  have n: "p_mol_map ex_empty (uid ex_m1) = None"
    by (simp add: ex_empty_def init_def)
  have a: "add_mol ex_empty ex_m1 (Some [''mass'' \<mapsto> PyVal 18]) = (Inl NameError, ex_one_mol)"
    using add_mol_novel[OF n, of "Some [''mass'' \<mapsto> PyVal 18]"]
    by (simp add: ex_one_mol_def)
  have f: "p_mol_list ex_one_mol = [ex_m1]" "p_mol_map ex_one_mol (uid ex_m1) = Some 0"
    using add_mol_novel[OF n, of "Some [''mass'' \<mapsto> PyVal 18]"]
    by (simp_all add: ex_one_mol_def ex_empty_def init_def)
  from f(2) have "add_mol ex_one_mol ex_m1 None = (Inr 0, ex_one_mol)"
    by (rule add_mol_existing)
  then show ?thesis using n a f by simp
qed

section \<open>C10: a metadata access with value None is a read\<close>

lemma meta_access_read_keeps: "snd (meta_access tab i k PyNone) = tab"
  by (simp add: meta_access_def split: option.splits)

lemma meta_access_read:
  "py_index tab i = Some j \<Longrightarrow>
   fst (meta_access tab i k PyNone) =
     (case (tab ! j) k of None \<Rightarrow> Inl KeyError | Some x \<Rightarrow> Inr x)"
  by (simp add: meta_access_def split: option.splits)

lemma meta_access_write:
  "v \<noteq> PyNone \<Longrightarrow> py_index tab i = Some j \<Longrightarrow>
   meta_access tab i k v = (Inr PyNone, tab[j := (tab ! j)(k \<mapsto> v)])"
  by (simp add: meta_access_def)

lemma meta_access_range:
  "py_index tab i = None \<Longrightarrow> meta_access tab i k v = (Inl IndexError, tab)"
  by (simp add: meta_access_def)

lemma py_index_less: "py_index tab i = Some j \<Longrightarrow> j < length tab"
  by (auto simp: py_index_def Let_def split: if_splits)

lemma meta_access_no_new_None:
  assumes "j' < length tab" "(snd (meta_access tab i k v) ! j') k' = Some PyNone"
  shows "(tab ! j') k' = Some PyNone"
proof (cases "v = PyNone")
  case True
  then show ?thesis using assms(2) by (simp add: meta_access_read_keeps)
next
  case False
  show ?thesis
  proof (cases "py_index tab i")
    case None
    then show ?thesis using assms(2) by (simp add: meta_access_range)
  next
    case (Some j)
    then show ?thesis using assms False py_index_less[of tab i j]
      by (auto simp: meta_access_write nth_list_update split: if_splits)
  qed
qed

lemma ex_one_mol_meta: "p_mol_meta ex_one_mol = [[''mass'' \<mapsto> PyVal 18]]"
  by (simp add: ex_one_mol_def add_mol_def ops_def ex_empty_def init_def Let_def)

lemma ex_one_op_meta: "p_op_meta ex_one_op = [Map.empty]"
  by (simp add: ex_one_op_def add_op_def ex_empty_def init_def Let_def)

lemma ex_rxn_net_meta: "p_rxn_meta ex_rxn_net = []"
  by (simp add: ex_rxn_net_def add_rxn_def ex_net_rxn_map Let_def ex_defs)

text \<open>
  C10. For \<open>mol_meta\<close>, \<open>op_meta\<close> and \<open>rxn_meta\<close> alike, on every store, index and key:
  a call with value \<open>None\<close> leaves the store as it was and, at an index of the
  metadata list, returns the value stored under the key or raises KeyError when the
  key is absent; a call with another value stores that value under the key and returns
  \<open>None\<close>; an index outside the metadata list raises IndexError and writes nothing.
  No call makes \<open>None\<close> the value of a key: a key that holds \<open>None\<close> after a call held
  it before.
\<close>

theorem meta_None_is_a_read:
  "(snd (mol_meta s i k PyNone) = s \<and>
    (py_index (p_mol_meta s) i = Some j \<longrightarrow>
       fst (mol_meta s i k PyNone) =
         (case (p_mol_meta s ! j) k of None \<Rightarrow> Inl KeyError | Some x \<Rightarrow> Inr x)) \<and>
    (v \<noteq> PyNone \<and> py_index (p_mol_meta s) i = Some j \<longrightarrow>
       mol_meta s i k v =
         (Inr PyNone, s\<lparr>p_mol_meta := (p_mol_meta s)[j := (p_mol_meta s ! j)(k \<mapsto> v)]\<rparr>)) \<and>
    (py_index (p_mol_meta s) i = None \<longrightarrow> mol_meta s i k v = (Inl IndexError, s)) \<and>
    (j' < length (p_mol_meta s) \<and>
       (p_mol_meta (snd (mol_meta s i k v)) ! j') k' = Some PyNone \<longrightarrow>
       (p_mol_meta s ! j') k' = Some PyNone)) \<and>
   (snd (op_meta s i k PyNone) = s \<and>
    (py_index (p_op_meta s) i = Some j \<longrightarrow>
       fst (op_meta s i k PyNone) =
         (case (p_op_meta s ! j) k of None \<Rightarrow> Inl KeyError | Some x \<Rightarrow> Inr x)) \<and>
    (v \<noteq> PyNone \<and> py_index (p_op_meta s) i = Some j \<longrightarrow>
       op_meta s i k v =
         (Inr PyNone, s\<lparr>p_op_meta := (p_op_meta s)[j := (p_op_meta s ! j)(k \<mapsto> v)]\<rparr>)) \<and>
    (py_index (p_op_meta s) i = None \<longrightarrow> op_meta s i k v = (Inl IndexError, s)) \<and>
    (j' < length (p_op_meta s) \<and>
       (p_op_meta (snd (op_meta s i k v)) ! j') k' = Some PyNone \<longrightarrow>
       (p_op_meta s ! j') k' = Some PyNone)) \<and>
   (snd (rxn_meta s i k PyNone) = s \<and>
    (py_index (p_rxn_meta s) i = Some j \<longrightarrow>
       fst (rxn_meta s i k PyNone) =
         (case (p_rxn_meta s ! j) k of None \<Rightarrow> Inl KeyError | Some x \<Rightarrow> Inr x)) \<and>
    (v \<noteq> PyNone \<and> py_index (p_rxn_meta s) i = Some j \<longrightarrow>
       rxn_meta s i k v =
         (Inr PyNone, s\<lparr>p_rxn_meta := (p_rxn_meta s)[j := (p_rxn_meta s ! j)(k \<mapsto> v)]\<rparr>)) \<and>
    (py_index (p_rxn_meta s) i = None \<longrightarrow> rxn_meta s i k v = (Inl IndexError, s)) \<and>
    (j' < length (p_rxn_meta s) \<and>
       (p_rxn_meta (snd (rxn_meta s i k v)) ! j') k' = Some PyNone \<longrightarrow>
       (p_rxn_meta s ! j') k' = Some PyNone))"
proof -
  have mol: "mol_meta s i k v =
      (fst (meta_access (p_mol_meta s) i k v),
       s\<lparr>p_mol_meta := snd (meta_access (p_mol_meta s) i k v)\<rparr>)" for v
    by (simp add: mol_meta_def case_prod_beta)
  have op: "op_meta s i k v =
      (fst (meta_access (p_op_meta s) i k v),
       s\<lparr>p_op_meta := snd (meta_access (p_op_meta s) i k v)\<rparr>)" for v
    by (simp add: op_meta_def case_prod_beta)
  have rxn: "rxn_meta s i k v =
      (fst (meta_access (p_rxn_meta s) i k v),
       s\<lparr>p_rxn_meta := snd (meta_access (p_rxn_meta s) i k v)\<rparr>)" for v
    by (simp add: rxn_meta_def case_prod_beta)
  have 1: "snd (mol_meta s i k PyNone) = s" "snd (op_meta s i k PyNone) = s"
    "snd (rxn_meta s i k PyNone) = s"
    by (simp_all add: mol op rxn meta_access_read_keeps)
  have 2: "fst (mol_meta s i k PyNone) =
         (case (p_mol_meta s ! j) k of None \<Rightarrow> Inl KeyError | Some x \<Rightarrow> Inr x)"
    if "py_index (p_mol_meta s) i = Some j"
    using that by (simp add: mol meta_access_read)
  have 3: "fst (op_meta s i k PyNone) =
         (case (p_op_meta s ! j) k of None \<Rightarrow> Inl KeyError | Some x \<Rightarrow> Inr x)"
    if "py_index (p_op_meta s) i = Some j"
    using that by (simp add: op meta_access_read)
  have 4: "fst (rxn_meta s i k PyNone) =
         (case (p_rxn_meta s ! j) k of None \<Rightarrow> Inl KeyError | Some x \<Rightarrow> Inr x)"
    if "py_index (p_rxn_meta s) i = Some j"
    using that by (simp add: rxn meta_access_read)
  have 5: "mol_meta s i k v =
         (Inr PyNone, s\<lparr>p_mol_meta := (p_mol_meta s)[j := (p_mol_meta s ! j)(k \<mapsto> v)]\<rparr>)"
    if "v \<noteq> PyNone" "py_index (p_mol_meta s) i = Some j"
    using that by (simp add: mol meta_access_write)
  have 6: "op_meta s i k v =
         (Inr PyNone, s\<lparr>p_op_meta := (p_op_meta s)[j := (p_op_meta s ! j)(k \<mapsto> v)]\<rparr>)"
    if "v \<noteq> PyNone" "py_index (p_op_meta s) i = Some j"
    using that by (simp add: op meta_access_write)
  have 7: "rxn_meta s i k v =
         (Inr PyNone, s\<lparr>p_rxn_meta := (p_rxn_meta s)[j := (p_rxn_meta s ! j)(k \<mapsto> v)]\<rparr>)"
    if "v \<noteq> PyNone" "py_index (p_rxn_meta s) i = Some j"
    using that by (simp add: rxn meta_access_write)
  have 8: "mol_meta s i k v = (Inl IndexError, s)" if "py_index (p_mol_meta s) i = None"
    using that by (simp add: mol meta_access_range)
  have 9: "op_meta s i k v = (Inl IndexError, s)" if "py_index (p_op_meta s) i = None"
    using that by (simp add: op meta_access_range)
  have 10: "rxn_meta s i k v = (Inl IndexError, s)" if "py_index (p_rxn_meta s) i = None"
    using that by (simp add: rxn meta_access_range)
  have 11: "(p_mol_meta s ! j') k' = Some PyNone"
    if "j' < length (p_mol_meta s)"
       "(p_mol_meta (snd (mol_meta s i k v)) ! j') k' = Some PyNone"
    using that meta_access_no_new_None[of j' "p_mol_meta s" i k v k'] by (simp add: mol)
  have 12: "(p_op_meta s ! j') k' = Some PyNone"
    if "j' < length (p_op_meta s)"
       "(p_op_meta (snd (op_meta s i k v)) ! j') k' = Some PyNone"
    using that meta_access_no_new_None[of j' "p_op_meta s" i k v k'] by (simp add: op)
  have 13: "(p_rxn_meta s ! j') k' = Some PyNone"
    if "j' < length (p_rxn_meta s)"
       "(p_rxn_meta (snd (rxn_meta s i k v)) ! j') k' = Some PyNone"
    using that meta_access_no_new_None[of j' "p_rxn_meta s" i k v k'] by (simp add: rxn)
  show ?thesis
    using 1 2 3 4 5 6 7 8 9 10 11 12 13 by blast
qed

theorem meta_None_is_a_read_witness:
  "py_index (p_mol_meta ex_one_mol) 0 = Some 0 \<and>
   mol_meta ex_one_mol 0 ''mass'' PyNone = (Inr (PyVal 18), ex_one_mol) \<and>
   fst (mol_meta ex_one_mol 0 ''charge'' PyNone) = Inl KeyError \<and>
   mol_meta ex_one_mol 0 ''charge'' (PyVal 1) =
     (Inr PyNone,
      ex_one_mol\<lparr>p_mol_meta := [[''mass'' \<mapsto> PyVal 18, ''charge'' \<mapsto> PyVal 1]]\<rparr>) \<and>
   py_index (p_op_meta ex_one_op) (- 1) = Some 0 \<and>
   op_meta ex_one_op (- 1) ''mass'' (PyVal 2) =
     (Inr PyNone, ex_one_op\<lparr>p_op_meta := [[''mass'' \<mapsto> PyVal 2]]\<rparr>) \<and>
   py_index (p_rxn_meta ex_rxn_net) 0 = None \<and>
   rxn_meta ex_rxn_net 0 ''yield'' PyNone = (Inl IndexError, ex_rxn_net) \<and>
   py_index (p_rxn_meta ex_rxn_meta_net) 0 = Some 0 \<and>
   rxn_meta ex_rxn_meta_net 0 ''yield'' PyNone = (Inr (PyVal 3), ex_rxn_meta_net)"
proof -
  have im: "py_index (p_mol_meta ex_one_mol) 0 = Some 0"
    by (simp add: ex_one_mol_meta py_index_def)
  have io: "py_index (p_op_meta ex_one_op) (- 1) = Some 0"
    by (simp add: ex_one_op_meta py_index_def)
  have ir: "py_index (p_rxn_meta ex_rxn_net) 0 = None"
    by (simp add: ex_rxn_net_meta py_index_def)
  have ih: "py_index (p_rxn_meta ex_rxn_meta_net) 0 = Some 0"
    by (simp add: ex_rxn_meta_net_def py_index_def)
  note a = meta_None_is_a_read[where s = ex_one_mol and i = 0 and j = 0 and k = "''mass''"
      and v = "PyVal 1"]
  note b = meta_None_is_a_read[where s = ex_one_mol and i = 0 and j = 0 and k = "''charge''"
      and v = "PyVal 1"]
  note c = meta_None_is_a_read[where s = ex_one_op and i = "- 1" and j = 0 and k = "''mass''"
      and v = "PyVal 2"]
  note d = meta_None_is_a_read[where s = ex_rxn_net and i = 0 and k = "''yield''"
      and v = PyNone]
  note e = meta_None_is_a_read[where s = ex_rxn_meta_net and i = 0 and j = 0
      and k = "''yield''"]
  have 1: "mol_meta ex_one_mol 0 ''mass'' PyNone = (Inr (PyVal 18), ex_one_mol)"
  proof -
    from a im have "snd (mol_meta ex_one_mol 0 ''mass'' PyNone) = ex_one_mol"
      "fst (mol_meta ex_one_mol 0 ''mass'' PyNone) =
         (case (p_mol_meta ex_one_mol ! 0) ''mass'' of
            None \<Rightarrow> Inl KeyError | Some x \<Rightarrow> Inr x)"
      by blast+
    then show ?thesis by (simp add: ex_one_mol_meta prod_eq_iff)
  qed
  have 2: "fst (mol_meta ex_one_mol 0 ''charge'' PyNone) = Inl KeyError"
  proof -
    from b im have "fst (mol_meta ex_one_mol 0 ''charge'' PyNone) =
         (case (p_mol_meta ex_one_mol ! 0) ''charge'' of
            None \<Rightarrow> Inl KeyError | Some x \<Rightarrow> Inr x)"
      by blast
    then show ?thesis by (simp add: ex_one_mol_meta)
  qed
  have 3: "mol_meta ex_one_mol 0 ''charge'' (PyVal 1) =
     (Inr PyNone,
      ex_one_mol\<lparr>p_mol_meta := [[''mass'' \<mapsto> PyVal 18, ''charge'' \<mapsto> PyVal 1]]\<rparr>)"
  proof -
    have "PyVal (1::nat) \<noteq> PyNone" by simp
    with b im have "mol_meta ex_one_mol 0 ''charge'' (PyVal 1) =
       (Inr PyNone, ex_one_mol\<lparr>p_mol_meta := (p_mol_meta ex_one_mol)
          [0 := (p_mol_meta ex_one_mol ! 0)(''charge'' \<mapsto> PyVal 1)]\<rparr>)"
      by blast
    then show ?thesis by (simp add: ex_one_mol_meta)
  qed
  have 4: "op_meta ex_one_op (- 1) ''mass'' (PyVal 2) =
     (Inr PyNone, ex_one_op\<lparr>p_op_meta := [[''mass'' \<mapsto> PyVal 2]]\<rparr>)"
  proof -
    have "PyVal (2::nat) \<noteq> PyNone" by simp
    with c io have "op_meta ex_one_op (- 1) ''mass'' (PyVal 2) =
       (Inr PyNone, ex_one_op\<lparr>p_op_meta := (p_op_meta ex_one_op)
          [0 := (p_op_meta ex_one_op ! 0)(''mass'' \<mapsto> PyVal 2)]\<rparr>)"
      by blast
    then show ?thesis by (simp add: ex_one_op_meta)
  qed
  from d ir have 5: "rxn_meta ex_rxn_net 0 ''yield'' PyNone = (Inl IndexError, ex_rxn_net)"
    by blast
  have 6: "rxn_meta ex_rxn_meta_net 0 ''yield'' PyNone = (Inr (PyVal 3), ex_rxn_meta_net)"
  proof -
    from e ih have "snd (rxn_meta ex_rxn_meta_net 0 ''yield'' PyNone) = ex_rxn_meta_net"
      "fst (rxn_meta ex_rxn_meta_net 0 ''yield'' PyNone) =
         (case (p_rxn_meta ex_rxn_meta_net ! 0) ''yield'' of
            None \<Rightarrow> Inl KeyError | Some x \<Rightarrow> Inr x)"
      by blast+
    then show ?thesis by (simp add: ex_rxn_meta_net_def prod_eq_iff)
  qed
  show ?thesis using im io ir ih 1 2 3 4 5 6 by blast
qed

section \<open>C6: add_rxn and the producer/consumer index\<close>

lemma add_mol_reverse_index:
  "p_mol_producers (snd (add_mol s m meta)) = p_mol_producers s \<and>
   p_mol_consumers (snd (add_mol s m meta)) = p_mol_consumers s"
  by (cases "p_mol_map s (uid m)") (simp_all add: add_mol_def ops_def Let_def)

lemma add_op_reverse_index:
  "p_mol_producers (snd (add_op s op meta)) = p_mol_producers s \<and>
   p_mol_consumers (snd (add_op s op meta)) = p_mol_consumers s"
  by (cases "p_op_map s (uid op)") (simp_all add: add_op_def Let_def)

lemma add_rxn_reverse_index:
  "p_mol_producers (snd (add_rxn s op rs ps meta)) = p_mol_producers s \<and>
   p_mol_consumers (snd (add_rxn s op rs ps meta)) = p_mol_consumers s"
  by (cases "p_rxn_map s \<lparr>operator = op, reactants = rs, products = ps\<rparr>")
     (simp_all add: add_rxn_def Let_def)

lemma run_calls_reverse_index:
  "p_mol_producers (run_calls cs s) = p_mol_producers s \<and>
   p_mol_consumers (run_calls cs s) = p_mol_consumers s"
proof (induction cs arbitrary: s)
  case Nil
  then show ?case by simp
next
  case (Cons c cs)
  have "p_mol_producers (snd (apply_call c s)) = p_mol_producers s \<and>
        p_mol_consumers (snd (apply_call c s)) = p_mol_consumers s"
    by (cases c) (simp_all add: add_mol_reverse_index add_op_reverse_index add_rxn_reverse_index)
  then show ?case using Cons.IH[of "snd (apply_call c s)"] by simp
qed

text \<open>
  C6, as the code has it. \<open>add_rxn\<close> leaves the producer and the consumer map of the
  store as they were, whatever the call returns. Both maps are empty in every store
  reached from the empty store by calls of \<open>add_mol\<close>, \<open>add_op\<close> and \<open>add_rxn\<close>, so there
  \<open>producers\<close> and \<open>consumers\<close> raise KeyError for every molecule, given by index, by
  object or by identifier (an identifier that is a Python int being read as an index).
\<close>

theorem add_rxn_registers_nothing_in_reverse_index:
  "p_mol_producers (snd (add_rxn s op rs ps meta)) = p_mol_producers s \<and>
   p_mol_consumers (snd (add_rxn s op rs ps meta)) = p_mol_consumers s \<and>
   p_mol_producers (run_calls cs init) = Map.empty \<and>
   p_mol_consumers (run_calls cs init) = Map.empty \<and>
   producers as_int (run_calls cs init) mol = Inl KeyError \<and>
   consumers as_int (run_calls cs init) mol = Inl KeyError"
proof -
  have e: "p_mol_producers (run_calls cs init) = Map.empty"
    "p_mol_consumers (run_calls cs init) = Map.empty"
    using run_calls_reverse_index[of cs init] by (simp_all add: init_def)
  have "producers as_int (run_calls cs init) mol = Inl KeyError"
    by (cases mol) (simp_all add: producers_def e split: option.splits)
  moreover have "consumers as_int (run_calls cs init) mol = Inl KeyError"
    by (cases mol) (simp_all add: consumers_def e split: option.splits)
  ultimately show ?thesis using e add_rxn_reverse_index[of s op rs ps meta] by simp
qed

text \<open>
  C6 as stated fails on the scenario's store: the reaction (0, [0], [1]) is novel, its
  handles are in range and the call returns handle 0, after which \<open>producers(1)\<close> and
  \<open>consumers(0)\<close> raise KeyError.
\<close>

theorem add_rxn_reverse_index_counterexample:
  "add_rxn ex_net 0 [0] [1] None = (Inr 0, ex_rxn_net) \<and>
   int (length (p_mol_list ex_net)) = 3 \<and> int (length (p_op_list ex_net)) = 1 \<and>
   p_rxn_map ex_net \<lparr>operator = 0, reactants = [0], products = [1]\<rparr> = None \<and>
   producers ex_not_int ex_rxn_net (ByIndex 1) = Inl KeyError \<and>
   consumers ex_not_int ex_rxn_net (ByIndex 0) = Inl KeyError"
proof -
  have "p_mol_producers ex_rxn_net = Map.empty" "p_mol_consumers ex_rxn_net = Map.empty"
    by (simp_all add: ex_rxn_net_def add_rxn_def ex_net_rxn_map Let_def ex_defs)
  then show ?thesis
    by (simp add: ex_rxn_net_first producers_def consumers_def ex_net_mols ex_net_ops
        ex_net_rxn_map)
qed

section \<open>Facts about the dictionaries, the merge and the projection\<close>

lemma map_of_dict_update:
  "distinct (map fst other) \<Longrightarrow>
   map_of (dict_update d other) k = (case map_of other k of Some v \<Rightarrow> Some v | None \<Rightarrow> map_of d k)"
proof (induction other arbitrary: d)
  case Nil
  then show ?case by (simp add: dict_update_def)
next
  case (Cons x other)
  obtain a b where x: "x = (a, b)" by (cases x)
  have d: "distinct (map fst other)" and na: "a \<notin> fst ` set other"
    using Cons.prems x by auto
  have "map_of (dict_update d (x # other)) k = map_of (dict_update (AList.update a b d) other) k"
    by (simp add: dict_update_def x)
  also have "\<dots> = (case map_of other k of Some v \<Rightarrow> Some v | None \<Rightarrow> map_of (AList.update a b d) k)"
    using Cons.IH[OF d] .
  also have "\<dots> = (case map_of (x # other) k of Some v \<Rightarrow> Some v | None \<Rightarrow> map_of d k)"
  proof (cases "k = a")
    case True
    then have "map_of other k = None" using na by (simp add: map_of_eq_None_iff)
    then show ?thesis using True by (simp add: x update_conv')
  next
    case False
    then show ?thesis by (simp add: x update_conv' split: option.splits)
  qed
  finally show ?case .
qed

lemma dict_update_Nil [simp]: "dict_update d [] = d"
  by (simp add: dict_update_def)

lemma set_keys_and: "set (keys_and d other) = fst ` set d \<inter> fst ` set other"
  by (auto simp: keys_and_def)

lemma fold_update_keys:
  "distinct (map fst acc) \<Longrightarrow>
   distinct (map fst (fold (\<lambda>k a. AList.update k (f k) a) ks acc)) \<and>
   map_of (fold (\<lambda>k a. AList.update k (f k) a) ks acc) h =
     (if h \<in> set ks then Some (f h) else map_of acc h)"
proof (induction ks arbitrary: acc)
  case Nil
  then show ?case by simp
next
  case (Cons k ks)
  have "distinct (map fst (AList.update k (f k) acc))"
    using Cons.prems by (simp add: distinct_update)
  from Cons.IH[OF this] show ?case by (auto simp: update_conv')
qed

lemma single_or_resolver: "resolver (single_or self other) = resolver other"
  by (simp add: single_or_def Let_def)

lemma single_or_lookup:
  assumes "distinct (map fst (data self))"
  shows "map_of (data (single_or self other)) h =
     (case map_of (data self) h of
        None \<Rightarrow> map_of (data other) h
      | Some a \<Rightarrow> (case map_of (data other) h of
                     None \<Rightarrow> Some a
                   | Some b \<Rightarrow> Some (resolver self a b)))"
proof -
  let ?f = "\<lambda>k. resolver self (the (map_of (data self) k)) (the (map_of (data other) k))"
  let ?ck = "keys_and (data self) (data other)"
  let ?res = "fold (\<lambda>k a. AList.update k (?f k) a) ?ck []"
  have res: "distinct (map fst ?res)"
    "map_of ?res h = (if h \<in> set ?ck then Some (?f h) else None)"
    using fold_update_keys[of "[]" ?f ?ck h] by simp_all
  have mem: "h \<in> set ?ck \<longleftrightarrow> map_of (data self) h \<noteq> None \<and> map_of (data other) h \<noteq> None"
    by (simp add: set_keys_and map_of_eq_None_iff)
  have upd: "map_of (dict_update (data other) (data self)) h =
      (case map_of (data self) h of Some v \<Rightarrow> Some v | None \<Rightarrow> map_of (data other) h)"
    using assms by (rule map_of_dict_update)
  have full: "map_of (dict_update (dict_update (data other) (data self)) ?res) h =
      (case map_of ?res h of Some v \<Rightarrow> Some v
       | None \<Rightarrow> map_of (dict_update (data other) (data self)) h)"
    using res(1) by (rule map_of_dict_update)
  have empty: "?ck = [] \<Longrightarrow> map_of (data self) h = None \<or> map_of (data other) h = None"
    using mem by auto
  show ?thesis
  proof (cases "data self = []")
    case True
    then show ?thesis by (simp add: single_or_def)
  next
    case ns: False
    show ?thesis
    proof (cases "data other = []")
      case True
      then show ?thesis using ns by (simp add: single_or_def split: option.splits)
    next
      case no: False
      show ?thesis
      proof (cases "?ck = []")
        case True
        then show ?thesis using ns no upd empty
          by (auto simp: single_or_def Let_def split: option.splits)
      next
        case False
        then show ?thesis using ns no upd full res(2) mem
          by (auto simp: single_or_def Let_def split: option.splits)
      qed
    qed
  qed
qed

lemma KeyOutput_and_total:
  "KeyOutput_and self other =
     Inr \<lparr>mol_keys = mol_keys self |\<union>| mol_keys other,
          op_keys = op_keys self |\<union>| op_keys other,
          rxn_keys = rxn_keys self |\<union>| rxn_keys other\<rparr>"
proof -
  have le: "\<not> fcard (A |\<union>| B) > fcard A + fcard B" for A B :: "'a fset"
    using fcard_funion_finter[of A B] by simp
  show ?thesis by (simp add: KeyOutput_and_def Let_def le)
qed

lemma invert_entries_fresh:
  "invert_entries meta_key es [] = (if es = [] then Inr [] else Inl KeyError)"
  by (cases es) auto

lemma invert_info_fresh:
  "invert_info items [] =
     (if list_ex (\<lambda>(meta_key, d). data d \<noteq> []) items then Inl KeyError else Inr [])"
  by (induction items) (auto simp: invert_entries_fresh)

lemma project_rxns_fresh:
  "project_rxns mol_inv [] rxn_inv rxns = (if rxns = [] then ([], None) else ([], Some KeyError))"
  by (cases rxns) (simp_all add: project_rxn_def project_packet_def)

lemma metalib_to_rxn_meta_outcome:
  "metalib_to_rxn_meta metalib rxns =
     (if has_entry metalib \<or> rxns \<noteq> [] then ([], Some KeyError) else ([], None))"
  by (simp add: metalib_to_rxn_meta_def invert_info_fresh has_entry_def project_rxns_fresh)

lemma execute_prop_nothing:
  "rxn_list \<noteq> [] \<Longrightarrow>
   fst (execute lr (RxnAnalysisStepProp prop) (rxn_list, err)) = [] \<and>
   snd (execute lr (RxnAnalysisStepProp prop) (rxn_list, err)) \<noteq> None"
  by (cases err; cases "lr state_or (map (\<lambda>rxn. compositor_call prop (fst rxn)) (filter snd rxn_list))")
     (simp_all add: Let_def metalib_to_rxn_meta_outcome)

lemma execute_filter_items:
  "fst (execute lr (RxnAnalysisStepFilter arg) (items, err)) =
     map (\<lambda>(rxn, pass_filter). (rxn, pass_filter \<and> arg rxn)) items"
  by (auto simp: case_prod_beta)

lemma execute_compound_nothing:
  "items \<noteq> [] \<Longrightarrow>
   fst (execute lr (RxnAnalysisStepCompound (RxnAnalysisStepFilter arg) (RxnAnalysisStepProp prop))
          (items, None)) = [] \<and>
   snd (execute lr (RxnAnalysisStepCompound (RxnAnalysisStepFilter arg) (RxnAnalysisStepProp prop))
          (items, None)) \<noteq> None"
proof -
  assume ne: "items \<noteq> []"
  let ?mid = "map (\<lambda>(rxn, pass_filter).
             if \<not> pass_filter \<or> \<not> arg rxn then (rxn, False) else (rxn, True)) items"
  have m: "?mid \<noteq> []" using ne by simp
  have e: "execute lr (RxnAnalysisStepCompound (RxnAnalysisStepFilter arg) (RxnAnalysisStepProp prop))
          (items, None) = execute lr (RxnAnalysisStepProp prop) (?mid, None)"
    by simp
  show ?thesis unfolding e using execute_prop_nothing[OF m] by blast
qed

section \<open>C2: which value survives a key collision in the projection\<close>

text \<open>
  C2, as the code has it. The projection merges a packet's prior metadata with the
  freshly computed dictionary by \<open>_mmd(prior, computed)\<close>. When one side is \<open>None\<close> the
  result is the other side. When both are present, every key of the computed
  dictionary carries the computed value in the result, also when the prior dictionary
  has the key, and every other key keeps what the prior dictionary gives it. A packet
  whose identifier has an entry in the inverted map leaves the projection with exactly
  that merge as its metadata.
\<close>

theorem mmd_computed_value_wins:
  "mmd None i2 = i2 \<and> mmd i1 None = i1 \<and>
   (distinct (map fst computed) \<longrightarrow>
      (\<exists>merged. mmd (Some prior) (Some computed) = Some merged \<and>
         (\<forall>k. map_of merged k =
            (case map_of computed k of Some v \<Rightarrow> Some v | None \<Rightarrow> map_of prior k)))) \<and>
   (map_of info (uid (pk_item x)) = Some found \<longrightarrow>
      project_packet info x =
        Inr \<lparr>pk_i = pk_i x, pk_item = pk_item x, pk_meta = mmd (pk_meta x) (Some found)\<rparr>)"
proof (intro conjI impI)
  show "mmd None i2 = i2" by (cases i2) (simp_all add: mmd_def)
  show "mmd i1 None = i1" by (cases i1) (simp_all add: mmd_def)
next
  assume d: "distinct (map fst computed)"
  have "mmd (Some prior) (Some computed) = Some (dict_update prior computed)"
    by (simp add: mmd_def)
  moreover have "\<forall>k. map_of (dict_update prior computed) k =
      (case map_of computed k of Some v \<Rightarrow> Some v | None \<Rightarrow> map_of prior k)"
    using map_of_dict_update[OF d] by blast
  ultimately show "\<exists>merged. mmd (Some prior) (Some computed) = Some merged \<and>
         (\<forall>k. map_of merged k =
            (case map_of computed k of Some v \<Rightarrow> Some v | None \<Rightarrow> map_of prior k))"
    by blast
next
  assume "map_of info (uid (pk_item x)) = Some found"
  then show "project_packet info x =
        Inr \<lparr>pk_i = pk_i x, pk_item = pk_item x, pk_meta = mmd (pk_meta x) (Some found)\<rparr>"
    by (simp add: project_packet_def)
qed

theorem mmd_computed_value_wins_witness:
  "distinct (map fst [(''mass'', 2::nat), (''charge'', 0)]) \<and>
   (\<exists>merged. mmd (Some [(''mass'', 1), (''name'', 7)]) (Some [(''mass'', 2::nat), (''charge'', 0)])
        = Some merged \<and>
      map_of merged ''mass'' = Some 2 \<and> map_of merged ''name'' = Some 7 \<and>
      map_of merged ''charge'' = Some 0) \<and>
   map_of [(''m1'', [(''mass'', 2::nat)])] (uid (pk_item (ex_pk ex_m1 0))) = Some [(''mass'', 2)] \<and>
   project_packet [(''m1'', [(''mass'', 2)])] (ex_pk ex_m1 0) =
     Inr \<lparr>pk_i = 0, pk_item = ex_m1, pk_meta = Some [(''mass'', 2)]\<rparr>"
proof -
  have d: "distinct (map fst [(''mass'', 2::nat), (''charge'', 0)])" by simp
  have f: "map_of [(''m1'', [(''mass'', 2::nat)])] (uid (pk_item (ex_pk ex_m1 0)))
             = Some [(''mass'', 2)]"
    by (simp add: ex_pk_def ex_m1_def)
  note t = mmd_computed_value_wins[where computed = "[(''mass'', 2::nat), (''charge'', 0)]"
      and prior = "[(''mass'', 1), (''name'', 7)]" and info = "[(''m1'', [(''mass'', 2::nat)])]"
      and x = "ex_pk ex_m1 0" and found = "[(''mass'', 2)]"]
  from t d obtain merged where
    m: "mmd (Some [(''mass'', 1), (''name'', 7)]) (Some [(''mass'', 2::nat), (''charge'', 0)])
          = Some merged"
    and l: "\<forall>k. map_of merged k =
       (case map_of [(''mass'', 2::nat), (''charge'', 0)] k of
          Some v \<Rightarrow> Some v | None \<Rightarrow> map_of [(''mass'', 1), (''name'', 7)] k)"
    by blast
  from l have "map_of merged ''mass'' = Some 2" "map_of merged ''name'' = Some 7"
    "map_of merged ''charge'' = Some 0"
    by simp_all
  moreover from t f have "project_packet [(''m1'', [(''mass'', 2)])] (ex_pk ex_m1 0) =
     Inr \<lparr>pk_i = pk_i (ex_pk ex_m1 0), pk_item = pk_item (ex_pk ex_m1 0),
          pk_meta = mmd (pk_meta (ex_pk ex_m1 0)) (Some [(''mass'', 2)])\<rparr>"
    by blast
  then have "project_packet [(''m1'', [(''mass'', 2)])] (ex_pk ex_m1 0) =
     Inr \<lparr>pk_i = 0, pk_item = ex_m1, pk_meta = Some [(''mass'', 2)]\<rparr>"
    by (simp add: ex_pk_def mmd_def)
  ultimately show ?thesis using d f m by blast
qed

text \<open>
  C2 as stated fails: with prior metadata \<open>{"mass": 1}\<close> and computed metadata
  \<open>{"mass": 2}\<close> the merge, and the packet the projection builds from it, hold 2 under
  \<open>"mass"\<close>.
\<close>

theorem mmd_prior_value_is_overwritten:
  "mmd (Some [(''mass'', 1::nat)]) (Some [(''mass'', 2)]) = Some [(''mass'', 2)] \<and>
   project_packet [(''m1'', [(''mass'', 2::nat)])]
       \<lparr>pk_i = 0, pk_item = ex_m1, pk_meta = Some [(''mass'', 1)]\<rparr> =
     Inr \<lparr>pk_i = 0, pk_item = ex_m1, pk_meta = Some [(''mass'', 2)]\<rparr>"
  by (simp add: mmd_def dict_update_def project_packet_def ex_m1_def)

section \<open>C5: merging two fragments for one key\<close>

text \<open>
  C5, as the code has it. If the left fragment's dictionary is empty the merge is the
  right fragment. If only the right one's is empty the merge has the left fragment's
  dictionary and the right fragment's resolver. In every case the merge carries the
  resolver of the right fragment. For dictionaries without repeated handles, a handle
  in both fragments maps to the left fragment's resolver applied to the left and the
  right value, and a handle in one fragment only keeps its value.
\<close>

theorem single_or_merge:
  "(data self = [] \<longrightarrow> single_or self other = other) \<and>
   (data self \<noteq> [] \<and> data other = [] \<longrightarrow>
      single_or self other = self\<lparr>resolver := resolver other\<rparr>) \<and>
   resolver (single_or self other) = resolver other \<and>
   (distinct (map fst (data self)) \<longrightarrow>
      (\<forall>h. map_of (data (single_or self other)) h =
         (case map_of (data self) h of
            None \<Rightarrow> map_of (data other) h
          | Some a \<Rightarrow> (case map_of (data other) h of
                         None \<Rightarrow> Some a
                       | Some b \<Rightarrow> Some (resolver self a b)))))"
proof (intro conjI impI allI)
  assume "data self = []"
  then show "single_or self other = other" by (simp add: single_or_def)
next
  assume "data self \<noteq> [] \<and> data other = []"
  then show "single_or self other = self\<lparr>resolver := resolver other\<rparr>"
    by (simp add: single_or_def)
next
  show "resolver (single_or self other) = resolver other" by (rule single_or_resolver)
next
  fix h
  assume "distinct (map fst (data self))"
  then show "map_of (data (single_or self other)) h =
         (case map_of (data self) h of
            None \<Rightarrow> map_of (data other) h
          | Some a \<Rightarrow> (case map_of (data other) h of
                         None \<Rightarrow> Some a
                       | Some b \<Rightarrow> Some (resolver self a b)))"
    by (rule single_or_lookup)
qed

theorem single_or_merge_witness:
  "data ex_right = [] \<and> single_or ex_right ex_left = ex_left \<and>
   data ex_left \<noteq> [] \<and> single_or ex_left ex_right = ex_left\<lparr>resolver := resolver ex_right\<rparr> \<and>
   distinct (map fst (data ex_both)) \<and>
   map_of (data (single_or ex_both ex_left)) ''m1'' = Some 8 \<and>
   map_of (data (single_or ex_both ex_left)) ''m2'' = Some 5 \<and>
   map_of (data (single_or ex_both ex_left)) ''m3'' = None"
proof -
  have e: "data ex_right = []" by (simp add: ex_right_def)
  have n: "data ex_left \<noteq> []" by (simp add: ex_left_def)
  have d: "distinct (map fst (data ex_both))" by (simp add: ex_both_def)
  note a = single_or_merge[where self = ex_right and other = ex_left]
  note b = single_or_merge[where self = ex_left and other = ex_right]
  note c = single_or_merge[where self = ex_both and other = ex_left]
  from a e have 1: "single_or ex_right ex_left = ex_left" by blast
  from b e n have 2: "single_or ex_left ex_right = ex_left\<lparr>resolver := resolver ex_right\<rparr>"
    by blast
  from c d have l: "\<forall>h. map_of (data (single_or ex_both ex_left)) h =
         (case map_of (data ex_both) h of
            None \<Rightarrow> map_of (data ex_left) h
          | Some a \<Rightarrow> (case map_of (data ex_left) h of
                         None \<Rightarrow> Some a
                       | Some b \<Rightarrow> Some (resolver ex_both a b)))"
    by blast
  from l have 3: "map_of (data (single_or ex_both ex_left)) ''m1'' = Some 8"
    "map_of (data (single_or ex_both ex_left)) ''m2'' = Some 5"
    "map_of (data (single_or ex_both ex_left)) ''m3'' = None"
    by (simp_all add: ex_both_def ex_left_def)
  show ?thesis using e n d 1 2 3 by blast
qed

text \<open>
  C5 as stated fails where the right fragment is the empty one: the merge is not the
  left, non-empty fragment, since it answers with the right fragment's resolver.
\<close>

theorem single_or_resolver_counterexample:
  "data ex_left \<noteq> [] \<and> data ex_right = [] \<and>
   single_or ex_left ex_right \<noteq> ex_left \<and>
   resolver (single_or ex_left ex_right) 0 1 = 1 \<and> resolver ex_left 0 1 = 0"
proof -
  have r: "resolver (single_or ex_left ex_right) 0 1 = 1"
    by (simp add: single_or_def ex_left_def ex_right_def)
  have l: "resolver ex_left 0 1 = 0" by (simp add: ex_left_def)
  from r l have "single_or ex_left ex_right \<noteq> ex_left" by auto
  then show ?thesis using r l by (simp add: ex_left_def ex_right_def)
qed

section \<open>C3: composing compositors that declare the same key\<close>

text \<open>
  C3 says that \<open>&\<close> fails when both operands declare a key in the same partition.
  \<open>KeyOutput.__and__\<close> raises when the union of two key sets has more elements than the
  two sets together, which no two sets have, so it returns the union for every pair of
  operands; \<open>PropertyCompositor.__and__\<close> returns \<open>None\<close>. Two molecule compositors that
  both declare \<open>"mass"\<close> are combined without an error.
\<close>

theorem KeyOutput_and_accepts_a_shared_key:
  "KeyOutput_and \<lparr>mol_keys = {|''mass''|}, op_keys = {||}, rxn_keys = {||}\<rparr>
                 \<lparr>mol_keys = {|''mass''|}, op_keys = {||}, rxn_keys = {||}\<rparr> =
     Inr \<lparr>mol_keys = {|''mass''|}, op_keys = {||}, rxn_keys = {||}\<rparr> \<and>
   compositor_keys (MolPropertyCompositor ex_mass) =
     \<lparr>mol_keys = {|''mass''|}, op_keys = {||}, rxn_keys = {||}\<rparr> \<and>
   PropertyCompositor_and (MolPropertyCompositor ex_mass) (MolPropertyCompositor ex_mass) = PyNone"
  by (simp add: KeyOutput_and_total PropertyCompositor_and_def ex_mass_def)

section \<open>C4: the projection raises KeyError on every Metadata State with an entry\<close>

text \<open>
  C4. When the Metadata State handed to \<open>metalib_to_rxn_meta\<close> holds an entry in one of
  its partitions, the generator raises KeyError before it yields an item, whatever the
  stream of reactions is. So does the annotation step whose reduced state holds an
  entry; and an annotation step whose compositor gives an entry for some passing
  reaction yields no item and ends in an exception, whatever the reducer does.
\<close>

theorem projection_raises_KeyError:
  "(has_entry metalib \<longrightarrow> metalib_to_rxn_meta metalib rxns = ([], Some KeyError)) \<and>
   (lr state_or (map (\<lambda>rxn. compositor_call pcomp (fst rxn)) (filter snd rxn_list)) = Inr prop_map
      \<and> has_entry prop_map \<longrightarrow>
    execute lr (RxnAnalysisStepProp pcomp) (rxn_list, None) = ([], Some KeyError)) \<and>
   ((\<exists>rxn \<in> set rxn_list. snd rxn \<and> has_entry (compositor_call pcomp (fst rxn))) \<longrightarrow>
    fst (execute lr (RxnAnalysisStepProp pcomp) (rxn_list, None)) = [] \<and>
    snd (execute lr (RxnAnalysisStepProp pcomp) (rxn_list, None)) \<noteq> None)"
proof (intro conjI impI)
  assume "has_entry metalib"
  then show "metalib_to_rxn_meta metalib rxns = ([], Some KeyError)"
    by (simp add: metalib_to_rxn_meta_outcome)
next
  assume "lr state_or (map (\<lambda>rxn. compositor_call pcomp (fst rxn)) (filter snd rxn_list))
            = Inr prop_map \<and> has_entry prop_map"
  then show "execute lr (RxnAnalysisStepProp pcomp) (rxn_list, None) = ([], Some KeyError)"
    by (simp add: metalib_to_rxn_meta_outcome)
next
  assume a: "\<exists>rxn \<in> set rxn_list. snd rxn \<and> has_entry (compositor_call pcomp (fst rxn))"
  then have ne: "rxn_list \<noteq> []" by auto
  show "fst (execute lr (RxnAnalysisStepProp pcomp) (rxn_list, None)) = []"
    using execute_prop_nothing[OF ne] by blast
  show "snd (execute lr (RxnAnalysisStepProp pcomp) (rxn_list, None)) \<noteq> None"
    using execute_prop_nothing[OF ne] by blast
qed

lemma ex_fragment_R1:
  "compositor_call (MolPropertyCompositor ex_mass) ex_R1 =
     \<lparr>mol_info = [(''mass'', \<lparr>data = [(''m1'', 18), (''m2'', 18)], resolver = (\<lambda>a b. a)\<rparr>)],
      op_info = [], rxn_info = []\<rparr>"
  by (simp add: ex_mass_def ex_R1_def ex_pk_def ex_m1_def ex_m2_def mol_props_def)

theorem projection_raises_KeyError_witness:
  "has_entry (compositor_call (MolPropertyCompositor ex_mass) ex_R1) \<and>
   metalib_to_rxn_meta (compositor_call (MolPropertyCompositor ex_mass) ex_R1) [(ex_R1, True)] =
     ([], Some KeyError) \<and>
   reduce_left state_or
     (map (\<lambda>rxn. compositor_call (MolPropertyCompositor ex_mass) (fst rxn))
        (filter snd [(ex_R1, True)])) =
     Inr (compositor_call (MolPropertyCompositor ex_mass) ex_R1) \<and>
   execute reduce_left (RxnAnalysisStepProp (MolPropertyCompositor ex_mass))
     ([(ex_R1, True)], None) = ([], Some KeyError) \<and>
   fst (execute reduce_left (RxnAnalysisStepProp (MolPropertyCompositor ex_mass))
     ([(ex_R1, True)], None)) = []"
proof -
  have h: "has_entry (compositor_call (MolPropertyCompositor ex_mass) ex_R1)"
    unfolding ex_fragment_R1 by (simp add: has_entry_def)
  have r: "reduce_left state_or
     (map (\<lambda>rxn. compositor_call (MolPropertyCompositor ex_mass) (fst rxn))
        (filter snd [(ex_R1, True)])) =
     Inr (compositor_call (MolPropertyCompositor ex_mass) ex_R1)"
    by (simp add: reduce_left_def)
  have b: "\<exists>rxn \<in> set [(ex_R1, True)].
      snd rxn \<and> has_entry (compositor_call (MolPropertyCompositor ex_mass) (fst rxn))"
    using h by simp
  note t = projection_raises_KeyError[where
      metalib = "compositor_call (MolPropertyCompositor ex_mass) ex_R1"
      and rxns = "[(ex_R1, True)]" and lr = reduce_left
      and pcomp = "MolPropertyCompositor ex_mass" and rxn_list = "[(ex_R1, True)]"
      and prop_map = "compositor_call (MolPropertyCompositor ex_mass) ex_R1"]
  from t h have 1: "metalib_to_rxn_meta (compositor_call (MolPropertyCompositor ex_mass) ex_R1)
      [(ex_R1, True)] = ([], Some KeyError)"
    by blast
  from t h r have 2: "execute reduce_left (RxnAnalysisStepProp (MolPropertyCompositor ex_mass))
     ([(ex_R1, True)], None) = ([], Some KeyError)"
    by blast
  from t b have 3: "fst (execute reduce_left (RxnAnalysisStepProp (MolPropertyCompositor ex_mass))
     ([(ex_R1, True)], None)) = []"
    by blast
  show ?thesis using h r 1 2 3 by blast
qed

section \<open>C9: a filter step followed by an annotation step\<close>

text \<open>
  C9 says that behind a filter that rejects R2 and passes R1 the annotation step puts
  both reactions, annotated, on the output stream. The filter step does keep both
  reactions and lowers the flag of R2 only. The annotation step then yields nothing:
  for every reducer its output is empty and ends in an exception, and with the
  left-to-right reducer the exception is the KeyError of \<open>metalib_to_rxn_meta\<close>.
\<close>

theorem annotate_after_filter_yields_nothing:
  "execute lr (RxnAnalysisStepFilter ex_filter) ([(ex_R1, True), (ex_R2, True)], None) =
     ([(ex_R1, True), (ex_R2, False)], None) \<and>
   fst (execute lr ex_pipeline ([(ex_R1, True), (ex_R2, True)], None)) = [] \<and>
   snd (execute lr ex_pipeline ([(ex_R1, True), (ex_R2, True)], None)) \<noteq> None \<and>
   execute reduce_left ex_pipeline ([(ex_R1, True), (ex_R2, True)], None) = ([], Some KeyError)"
proof -
  have f: "execute lr (RxnAnalysisStepFilter ex_filter) ([(ex_R1, True), (ex_R2, True)], None) =
     ([(ex_R1, True), (ex_R2, False)], None)" for lr
    by (simp add: ex_filter_def ex_R1_def ex_R2_def ex_pk_def ex_m2_def ex_m3_def)
  have n: "[(ex_R1, True), (ex_R2, True)] \<noteq> []" by simp
  have p: "fst (execute lr ex_pipeline ([(ex_R1, True), (ex_R2, True)], None)) = [] \<and>
           snd (execute lr ex_pipeline ([(ex_R1, True), (ex_R2, True)], None)) \<noteq> None"
    unfolding ex_pipeline_def using n by (rule execute_compound_nothing)
  have "execute reduce_left ex_pipeline ([(ex_R1, True), (ex_R2, True)], None) =
          execute reduce_left (RxnAnalysisStepProp (MolPropertyCompositor ex_mass))
            ([(ex_R1, True), (ex_R2, False)], None)"
    unfolding ex_pipeline_def execute.simps(3) f ..
  also have "\<dots> = ([], Some KeyError)"
    by (simp add: reduce_left_def metalib_to_rxn_meta_outcome)
  finally show ?thesis using f p by blast
qed

end
